theory Spec2Isabelle
  imports Complex_Main
begin

section \<open>The embedding provider of \<open>vector.service.ts\<close>\<close>

text \<open>
  JavaScript numbers are modelled as \<^typ>\<open>real\<close>: the arithmetic of the service (doubling
  and decaying a delay, summing squares, dividing by a magnitude) is read as exact
  arithmetic, and \<open>Math.sin\<close>, \<open>Math.sqrt\<close> as \<^const>\<open>sin\<close> and \<^const>\<open>sqrt\<close>.
  A text is the list of its UTF-16 code units, which is what \<open>text.charCodeAt(i)\<close> reads;
  an embedding is a list of numbers.
\<close>

type_synonym code_units = "nat list"
type_synonym embedding = "real list"

subsection \<open>\<open>generateFallbackEmbedding\<close>\<close>

text \<open>
  The loop \<open>for (let i = 0; i < text.length; i++)\<close> of \<open>generateFallbackEmbedding\<close>:
  \<open>char = text.charCodeAt(i)\<close>, \<open>index = (char + i) % embedding.length\<close>,
  \<open>embedding[index] += Math.sin(char * i) * 0.01\<close>. The index is always below the length
  of the array, so the update is an in-range list update.
\<close>

function fallback_loop :: "code_units \<Rightarrow> nat \<Rightarrow> embedding \<Rightarrow> embedding" where
  "fallback_loop text i embedding =
     (if i < length text then
        (let char = text ! i;
             index = (char + i) mod length embedding
         in fallback_loop text (i + 1)
              (embedding[index := embedding ! index + sin (real (char * i)) * 0.01]))
      else embedding)"
  by pat_completeness auto
termination
  by (relation "measure (\<lambda>(text, i, embedding). length text - i)") auto

declare fallback_loop.simps [simp del]

text \<open>\<open>Math.sqrt(embedding.reduce((sum, val) => sum + val * val, 0))\<close>\<close>

definition magnitude :: "embedding \<Rightarrow> real" where
  "magnitude embedding = sqrt (foldl (\<lambda>sum val. sum + val * val) 0 embedding)"

definition generateFallbackEmbedding :: "code_units \<Rightarrow> embedding" where
  "generateFallbackEmbedding text =
     (let embedding = fallback_loop text 0 (replicate 1536 0)
      in if magnitude embedding > 0
         then map (\<lambda>val. val / magnitude embedding) embedding
         else embedding)"

text \<open>The Euclidean norm, in which the properties of the returned vector are stated.\<close>

definition l2_norm :: "embedding \<Rightarrow> real" where
  "l2_norm v = sqrt (\<Sum>x\<leftarrow>v. x\<^sup>2)"

subsection \<open>Rate limiting and \<open>generateEmbeddings\<close>\<close>

text \<open>
  The two fields of the service that \<open>waitForRateLimit\<close> and \<open>generateEmbeddings\<close> read
  and write, with the initial values of the class (\<open>rateLimitDelay = 1000\<close>,
  \<open>lastRequestTime = 0\<close>).
\<close>

record rate_limiter =
  rateLimitDelay :: real
  lastRequestTime :: real

definition initial_rate_limiter :: rate_limiter where
  "initial_rate_limiter = \<lparr>rateLimitDelay = 1000, lastRequestTime = 0\<rparr>"

text \<open>
  A value thrown by a client library: the code looks at \<open>error.status\<close> and at
  \<open>error.code\<close> only; either may be absent.
\<close>

record js_error =
  message :: string
  status :: "nat option"
  code :: "string option"

text \<open>
  What an external service (the embedding API, the chat API, the Chroma server) answers
  to one request: the promise resolves with a value or rejects with an error.
\<close>

datatype 'a outcome = Success 'a | Failure js_error

text \<open>
  \<open>waitForRateLimit\<close> suspends the caller until \<open>rateLimitDelay\<close> milliseconds have passed
  since \<open>lastRequestTime\<close> and then stores the clock in \<open>lastRequestTime\<close>. Waiting changes
  no field; \<open>now\<close> is the reading of \<open>Date.now()\<close> of the final assignment.
\<close>

definition waitForRateLimit :: "real \<Rightarrow> rate_limiter \<Rightarrow> rate_limiter" where
  "waitForRateLimit now rl = rl\<lparr>lastRequestTime := now\<rparr>"

text \<open>
  The two assignments to \<open>rateLimitDelay\<close>:
  \<open>Math.max(1000, this.rateLimitDelay * 0.9)\<close> after a successful request and
  \<open>Math.min(30000, this.rateLimitDelay * 2)\<close> after a response with status 429.
\<close>

definition decay_delay :: "rate_limiter \<Rightarrow> rate_limiter" where
  "decay_delay rl = rl\<lparr>rateLimitDelay := max 1000 (rateLimitDelay rl * 0.9)\<rparr>"

definition backoff_delay :: "rate_limiter \<Rightarrow> rate_limiter" where
  "backoff_delay rl = rl\<lparr>rateLimitDelay := min 30000 (rateLimitDelay rl * 2)\<rparr>"

definition maxRetries :: nat where
  "maxRetries = 3"

text \<open>
  The \<open>while (retries < maxRetries)\<close> loop. Every iteration that does not return increments
  \<open>retries\<close>, so the request made in an iteration is request number \<open>retries\<close> of the call:
  \<open>provider retries\<close> is the answer of the API to it and \<open>clock retries\<close> the clock stored by
  \<open>waitForRateLimit\<close> before it. The result is \<open>Inl\<close> for \<open>throw error\<close> and \<open>Inr\<close> for a
  returned vector, paired with the fields as the call leaves them.
\<close>

function generateEmbeddings_loop ::
  "(nat \<Rightarrow> real) \<Rightarrow> (nat \<Rightarrow> embedding outcome) \<Rightarrow> code_units \<Rightarrow> nat \<Rightarrow> rate_limiter
     \<Rightarrow> (js_error + embedding) \<times> rate_limiter" where
  "generateEmbeddings_loop clock provider text retries rl =
     (if retries < maxRetries then
        (let rl1 = waitForRateLimit (clock retries) rl in
         case provider retries of
           Success e \<Rightarrow> (Inr e, decay_delay rl1)
         | Failure error \<Rightarrow>
             if status error = Some 429 then
               (let rl2 = backoff_delay rl1 in
                if retries + 1 < maxRetries
                then generateEmbeddings_loop clock provider text (retries + 1) rl2
                else (Inr (generateFallbackEmbedding text), rl2))
             else if code error = Some ''insufficient_quota'' then
               (Inr (generateFallbackEmbedding text), rl1)
             else (Inl error, rl1))
      else (Inr (generateFallbackEmbedding text), rl))"
  by pat_completeness auto
termination
  by (relation "measure (\<lambda>(clock, provider, text, retries, rl). maxRetries - retries)") auto

declare generateEmbeddings_loop.simps [simp del]

definition generateEmbeddings ::
  "(nat \<Rightarrow> real) \<Rightarrow> (nat \<Rightarrow> embedding outcome) \<Rightarrow> code_units \<Rightarrow> rate_limiter
     \<Rightarrow> (js_error + embedding) \<times> rate_limiter" where
  "generateEmbeddings clock provider text rl = generateEmbeddings_loop clock provider text 0 rl"

text \<open>
  \<open>CustomEmbeddingFunction.generate\<close>, the function handed to the vector store: for each
  text it calls \<open>generateEmbeddings\<close> inside \<open>try\<close> and on any exception pushes the fallback
  embedding. \<open>clocks k\<close> and \<open>providers k\<close> are the clock and the API as the call for the
  \<open>k\<close>-th remaining text sees them.
\<close>

fun generate ::
  "(nat \<Rightarrow> nat \<Rightarrow> real) \<Rightarrow> (nat \<Rightarrow> nat \<Rightarrow> embedding outcome) \<Rightarrow> code_units list \<Rightarrow> rate_limiter
     \<Rightarrow> embedding list \<times> rate_limiter" where
  "generate clocks providers [] rl = ([], rl)"
| "generate clocks providers (text # texts) rl =
     (let (r, rl1) = generateEmbeddings (clocks 0) (providers 0) text rl;
          embedding = (case r of Inr e \<Rightarrow> e | Inl error \<Rightarrow> generateFallbackEmbedding text);
          (embeddings, rl2) = generate (\<lambda>k. clocks (k + 1)) (\<lambda>k. providers (k + 1)) texts rl1
      in (embedding # embeddings, rl2))"

text \<open>
  The three kinds of answer that the \<open>catch\<close> block of \<open>generateEmbeddings\<close> tells apart:
  status 429; another status with the code \<open>insufficient_quota\<close>; any other error.
\<close>

definition is_rate_limit :: "embedding outcome \<Rightarrow> bool" where
  "is_rate_limit r =
     (case r of Success e \<Rightarrow> False | Failure error \<Rightarrow> status error = Some 429)"

definition is_quota_exhausted :: "embedding outcome \<Rightarrow> bool" where
  "is_quota_exhausted r =
     (case r of
        Success e \<Rightarrow> False
      | Failure error \<Rightarrow> status error \<noteq> Some 429 \<and> code error = Some ''insufficient_quota'')"

definition is_other_failure :: "embedding outcome \<Rightarrow> bool" where
  "is_other_failure r =
     (case r of
        Success e \<Rightarrow> False
      | Failure error \<Rightarrow> status error \<noteq> Some 429 \<and> code error \<noteq> Some ''insufficient_quota'')"

text \<open>The invariant of the delay.\<close>

definition delay_in_bounds :: "rate_limiter \<Rightarrow> bool" where
  "delay_in_bounds rl \<longleftrightarrow> 1000 \<le> rateLimitDelay rl \<and> rateLimitDelay rl \<le> 30000"

section \<open>JavaScript strings\<close>

text \<open>
  The strings of the services are modelled as \<^typ>\<open>string\<close>, one \<^typ>\<open>char\<close> for one code
  unit, so the model covers the texts whose code units are below 256 (ASCII and Latin-1).
  \<open>toLowerCase\<close> maps \<open>A\<close>..\<open>Z\<close> and the capital letters \<open>U+00C0\<close>..\<open>U+00DE\<close> (without the
  multiplication sign \<open>U+00D7\<close>) to the letter 32 code points later and leaves every other
  code unit of that range as it is.
\<close>

definition toLowerCase_char :: "char \<Rightarrow> char" where
  "toLowerCase_char c =
     (let n = (of_char c :: nat)
      in if (65 \<le> n \<and> n \<le> 90) \<or> (192 \<le> n \<and> n \<le> 222 \<and> n \<noteq> 215)
         then char_of (n + 32) else c)"

definition toLowerCase :: "string \<Rightarrow> string" where
  "toLowerCase s = map toLowerCase_char s"

text \<open>\<open>s.includes(searchString)\<close>: \<open>searchString\<close> occurs in \<open>s\<close> at some position.\<close>

fun includes' :: "string \<Rightarrow> string \<Rightarrow> bool" where
  "includes' [] searchString = (searchString = [])"
| "includes' (c # cs) searchString =
     (take (length searchString) (c # cs) = searchString \<or> includes' cs searchString)"

text \<open>
  \<open>s.trim()\<close> removes white space and line terminators from both ends; below 256 these
  are the code units 9 to 13, 32 and 160.
\<close>

definition is_whitespace :: "char \<Rightarrow> bool" where
  "is_whitespace c = ((of_char c :: nat) \<in> {9, 10, 11, 12, 13, 32, 160})"

definition trim :: "string \<Rightarrow> string" where
  "trim s = rev (dropWhile is_whitespace (rev (dropWhile is_whitespace s)))"

text \<open>
  \<open>a || b\<close> for a string \<open>a\<close> that may be \<open>undefined\<close> or \<open>null\<close> (\<open>None\<close>): \<open>b\<close> when \<open>a\<close> is
  absent or empty.
\<close>

definition or_default :: "string option \<Rightarrow> string \<Rightarrow> string" where
  "or_default a b = (case a of None \<Rightarrow> b | Some s \<Rightarrow> if s = [] then b else s)"

text \<open>\<open>s.split(sep)[0]\<close>: the part of \<open>s\<close> before the first separator.\<close>

definition split_first :: "char \<Rightarrow> string \<Rightarrow> string" where
  "split_first sep s = takeWhile (\<lambda>c. c \<noteq> sep) s"

text \<open>
  The replacement text of \<open>String.prototype.replace\<close> for one match of a pattern without
  capture groups (the abstract operation \<open>GetSubstitution\<close>): \<open>$$\<close> is a dollar sign,
  \<open>$&\<close> the matched text, \<open>$`\<close> the text before the match, \<open>$'\<close> the text after it, and
  every other character, a dollar sign before a digit or \<open><\<close> included, stands for itself.
\<close>

fun getSubstitution :: "string \<Rightarrow> string \<Rightarrow> string \<Rightarrow> string \<Rightarrow> string" where
  "getSubstitution matched before after [] = []"
| "getSubstitution matched before after [c] = [c]"
| "getSubstitution matched before after (c # d # rest) =
     (if c = CHR ''$'' \<and> d = CHR ''$'' then CHR ''$'' # getSubstitution matched before after rest
      else if c = CHR ''$'' \<and> d = CHR ''&'' then matched @ getSubstitution matched before after rest
      else if c = CHR ''$'' \<and> d = CHR ''`'' then before @ getSubstitution matched before after rest
      else if c = CHR ''$'' \<and> d = CHR 0x27 then after @ getSubstitution matched before after rest
      else c # getSubstitution matched before after (d # rest))"

text \<open>
  \<open>s.replace(new RegExp(pattern, 'g'), replacement)\<close> for a pattern that matches its own
  text only, as \<open>{{meeting_link}}\<close> does (a brace that opens no quantifier is a literal
  character): the matches are found from left to right, the search resuming behind each
  match. \<open>before\<close> is the part of the subject already passed.
\<close>

fun replace_from :: "string \<Rightarrow> string \<Rightarrow> string \<Rightarrow> string \<Rightarrow> string" where
  "replace_from pattern replacement before [] = []"
| "replace_from pattern replacement before (c # cs) =
     (if pattern \<noteq> [] \<and> take (length pattern) (c # cs) = pattern
      then getSubstitution pattern before (drop (length pattern) (c # cs)) replacement
           @ replace_from pattern replacement (before @ pattern) (drop (length pattern) (c # cs))
      else c # replace_from pattern replacement (before @ [c]) cs)"

definition replace_all :: "string \<Rightarrow> string \<Rightarrow> string \<Rightarrow> string" where
  "replace_all pattern replacement s = replace_from pattern replacement [] s"

text \<open>Decimal digits of a natural number and of an integer, as a template literal prints them.\<close>

definition digit :: "nat \<Rightarrow> char" where
  "digit d = ''0123456789'' ! d"

fun show_nat :: "nat \<Rightarrow> string" where
  "show_nat n = (if n < 10 then [digit n] else show_nat (n div 10) @ [digit (n mod 10)])"

declare show_nat.simps [simp del]

definition show_int :: "int \<Rightarrow> string" where
  "show_int i = (if i < 0 then CHR ''-'' # show_nat (nat (- i)) else show_nat (nat i))"

text \<open>\<open>Math.round\<close>: the nearest integer, a half rounded up.\<close>

definition math_round :: "real \<Rightarrow> int" where
  "math_round x = \<lfloor>x + 1 / 2\<rfloor>"

section \<open>The knowledge store of \<open>vector.service.ts\<close>\<close>

datatype item_type = product | outreach | template_item | faq

record KnowledgeMetadata =
  type :: item_type
  tags :: "string list"
  priority :: nat
  context' :: "string option"

text \<open>\<open>Omit<KnowledgeItem, 'id'>\<close> and \<open>Omit<ReplyTemplate, 'id'>\<close>, the arguments of the two add methods.\<close>

record KnowledgeItem =
  content :: string
  category :: string
  metadata :: KnowledgeMetadata

record ReplyTemplate =
  scenario :: string
  template :: string
  variables :: "string list"
  category :: string

text \<open>
  The two Chroma collections hold, per entry, the id, the document and the metadata that
  \<open>add\<close> was given. \<open>isConnected\<close> is the flag of the service.
\<close>

record store =
  isConnected :: bool
  knowledgeCollection :: "(string \<times> string \<times> KnowledgeMetadata) list"
  templatesCollection :: "(string \<times> string \<times> ReplyTemplate) list"

record Stats =
  knowledgeItems :: nat
  replyTemplates :: nat
  status :: string

text \<open>
  \<open>addKnowledgeItem\<close>: \<open>uuid\<close> is the value of \<open>uuidv4()\<close> and \<open>answer\<close> what the Chroma server
  answers to the \<open>add\<close> request, which is sent only when the service is connected. An
  accepted \<open>add\<close> under a fresh id appends one entry to the collection.
\<close>

definition addKnowledgeItem ::
  "string \<Rightarrow> unit outcome \<Rightarrow> KnowledgeItem \<Rightarrow> store \<Rightarrow> (js_error + string) \<times> store" where
  "addKnowledgeItem uuid answer item st =
     (if \<not> isConnected st then (Inr uuid, st)
      else case answer of
             Failure error \<Rightarrow> (Inl error, st)
           | Success _ \<Rightarrow>
               (Inr uuid,
                st\<lparr>knowledgeCollection := knowledgeCollection st
                      @ [(uuid, KnowledgeItem.content item, KnowledgeItem.metadata item)]\<rparr>))"

definition addReplyTemplate ::
  "string \<Rightarrow> unit outcome \<Rightarrow> ReplyTemplate \<Rightarrow> store \<Rightarrow> (js_error + string) \<times> store" where
  "addReplyTemplate uuid answer t st =
     (let searchText = scenario t @ '' '' @ template t
      in if \<not> isConnected st then (Inr uuid, st)
         else case answer of
                Failure error \<Rightarrow> (Inl error, st)
              | Success _ \<Rightarrow>
                  (Inr uuid,
                   st\<lparr>templatesCollection := templatesCollection st
                         @ [(uuid, searchText,
                             \<lparr>scenario = scenario t, template = template t,
                              variables = variables t, category = ReplyTemplate.category t\<rparr>)]\<rparr>))"

text \<open>
  \<open>getStats\<close>: the two \<open>count()\<close> requests are answered by the server (\<open>answer1\<close>,
  \<open>answer2\<close>) with the sizes of the collections, or fail.
\<close>

definition getStats :: "unit outcome \<Rightarrow> unit outcome \<Rightarrow> store \<Rightarrow> js_error + Stats" where
  "getStats answer1 answer2 st =
     (if \<not> isConnected st
      then Inr \<lparr>knowledgeItems = 0, replyTemplates = 0, status = ''disconnected''\<rparr>
      else case answer1 of
             Failure error \<Rightarrow> Inl error
           | Success _ \<Rightarrow>
               (case answer2 of
                  Failure error \<Rightarrow> Inl error
                | Success _ \<Rightarrow>
                    Inr \<lparr>knowledgeItems = length (knowledgeCollection st),
                         replyTemplates = length (templatesCollection st),
                         status = ''active''\<rparr>))"

text \<open>The seed data of \<open>seedKnowledgeBase\<close>.\<close>

definition productInfo :: "KnowledgeItem list" where
  "productInfo =
     [\<lparr>content = ''Our AI-powered email management platform OneBox-AI helps businesses organize, classify, and respond to emails intelligently using machine learning.'',
       category = ''product_overview'',
       metadata = \<lparr>type = product, tags = [''AI'', ''email'', ''management'', ''automation''],
                   priority = 1, context' = None\<rparr>\<rparr>,
      \<lparr>content = ''Key features: Multi-account IMAP sync, AI email classification, Elasticsearch integration, webhook notifications, modern React frontend, dark/light themes.'',
       category = ''product_features'',
       metadata = \<lparr>type = product, tags = [''features'', ''IMAP'', ''AI'', ''frontend''],
                   priority = 1, context' = None\<rparr>\<rparr>,
      \<lparr>content = ''Technical stack: Node.js, Express, TypeScript, React 18, Elasticsearch, Hugging Face AI, ChromaDB for vector search.'',
       category = ''technical_specs'',
       metadata = \<lparr>type = product, tags = [''tech stack'', ''Node.js'', ''React'', ''AI''],
                   priority = 2, context' = None\<rparr>\<rparr>]"

definition outreachTemplates :: "ReplyTemplate list" where
  "outreachTemplates =
     [\<lparr>scenario = ''Job application follow-up when interviewer shows interest'',
       template = ''Thank you for your interest in my application! I'm excited about the opportunity to discuss how I can contribute to your team. You can schedule a convenient time for our interview here: https://cal.com/example'',
       variables = [''meeting_link''],
       category = ''job_interview''\<rparr>,
      \<lparr>scenario = ''Meeting request response for project collaboration'',
       template = ''I'd be happy to discuss the collaboration opportunity! Please find my available slots for a meeting: https://cal.com/example'',
       variables = [''meeting_link'', ''project_name''],
       category = ''collaboration''\<rparr>,
      \<lparr>scenario = ''Product demo request from potential client'',
       template = ''Thank you for your interest in OneBox-AI! I'd be delighted to show you how our AI-powered email management platform can streamline your workflow. You can book a demo session here: https://cal.com/example'',
       variables = [''meeting_link'', ''product_name''],
       category = ''sales_demo''\<rparr>,
      \<lparr>scenario = ''Technical support inquiry response'',
       template = ''I'd be happy to help you with your technical question about OneBox-AI. Let's schedule a quick call to discuss your specific needs: https://cal.com/example'',
       variables = [''meeting_link'', ''issue_type''],
       category = ''technical_support''\<rparr>]"

text \<open>
  The two \<open>for ... of\<close> loops of \<open>seedKnowledgeBase\<close>. \<open>uuids k\<close> and \<open>answers k\<close> belong to
  the \<open>k\<close>-th add of the call; a rejected \<open>add\<close> ends the call with the exception and
  leaves the entries added so far in place.
\<close>

fun addKnowledgeItems ::
  "(nat \<Rightarrow> string) \<Rightarrow> (nat \<Rightarrow> unit outcome) \<Rightarrow> nat \<Rightarrow> KnowledgeItem list \<Rightarrow> store
     \<Rightarrow> (js_error + unit) \<times> store" where
  "addKnowledgeItems uuids answers k [] st = (Inr (), st)"
| "addKnowledgeItems uuids answers k (item # items) st =
     (case addKnowledgeItem (uuids k) (answers k) item st of
        (Inl error, st') \<Rightarrow> (Inl error, st')
      | (Inr _, st') \<Rightarrow> addKnowledgeItems uuids answers (k + 1) items st')"

fun addReplyTemplates ::
  "(nat \<Rightarrow> string) \<Rightarrow> (nat \<Rightarrow> unit outcome) \<Rightarrow> nat \<Rightarrow> ReplyTemplate list \<Rightarrow> store
     \<Rightarrow> (js_error + unit) \<times> store" where
  "addReplyTemplates uuids answers k [] st = (Inr (), st)"
| "addReplyTemplates uuids answers k (t # ts) st =
     (case addReplyTemplate (uuids k) (answers k) t st of
        (Inl error, st') \<Rightarrow> (Inl error, st')
      | (Inr _, st') \<Rightarrow> addReplyTemplates uuids answers (k + 1) ts st')"

definition seedKnowledgeBase ::
  "(nat \<Rightarrow> string) \<Rightarrow> (nat \<Rightarrow> unit outcome) \<Rightarrow> store \<Rightarrow> (js_error + unit) \<times> store" where
  "seedKnowledgeBase uuids answers st =
     (if \<not> isConnected st then (Inr (), st)
      else case addKnowledgeItems uuids answers 0 productInfo st of
             (Inl error, st') \<Rightarrow> (Inl error, st')
           | (Inr _, st') \<Rightarrow>
               addReplyTemplates uuids answers (length productInfo) outreachTemplates st')"

text \<open>
  What the outside world contributes to one run of \<open>initialize\<close>: the answer to the two
  \<open>getOrCreateCollection\<close> requests of \<open>initializeCollections\<close> (one value for both), the
  answers to the two \<open>count()\<close> requests, and the ids and answers for the seeding inside
  \<open>try\<close> and for the seeding inside \<open>catch\<close>.
\<close>

record init_world =
  collections_answer :: "unit outcome"
  count_answer1 :: "unit outcome"
  count_answer2 :: "unit outcome"
  seed_uuids :: "nat \<Rightarrow> string"
  seed_answers :: "nat \<Rightarrow> unit outcome"
  reseed_uuids :: "nat \<Rightarrow> string"
  reseed_answers :: "nat \<Rightarrow> unit outcome"

definition initialize :: "init_world \<Rightarrow> store \<Rightarrow> store" where
  "initialize w st =
     (case collections_answer w of
        Failure error \<Rightarrow> st\<lparr>isConnected := False\<rparr>
      | Success _ \<Rightarrow>
          (let st1 = st\<lparr>isConnected := True\<rparr>;
               attempt =
                 (case getStats (count_answer1 w) (count_answer2 w) st1 of
                    Inl error \<Rightarrow> (Inl error, st1)
                  | Inr stats \<Rightarrow>
                      if knowledgeItems stats = 0
                      then seedKnowledgeBase (seed_uuids w) (seed_answers w) st1
                      else (Inr (), st1))
           in case attempt of
                (Inr _, st2) \<Rightarrow> st2
              | (Inl error, st2) \<Rightarrow>
                  (case seedKnowledgeBase (reseed_uuids w) (reseed_answers w) st2 of
                     (Inr _, st3) \<Rightarrow> st3
                   | (Inl error', st3) \<Rightarrow> st3\<lparr>isConnected := False\<rparr>)))"

subsection \<open>Searching\<close>

record KnowledgeResult =
  content :: string
  metadata :: KnowledgeMetadata
  similarity :: real

record TemplateResult = ReplyTemplate +
  similarity :: real

definition getFallbackKnowledge :: "string \<Rightarrow> nat \<Rightarrow> KnowledgeResult list" where
  "getFallbackKnowledge query limit =
     take limit
       [\<lparr>content = ''Our AI-powered email management platform OneBox-AI helps businesses organize, classify, and respond to emails intelligently using machine learning.'',
         metadata = \<lparr>type = product, tags = [''AI'', ''email'', ''management''], priority = 1,
                     context' = None\<rparr>,
         similarity = 0.8\<rparr>,
        \<lparr>content = ''Key features: Multi-account IMAP sync, AI email classification, Elasticsearch integration, webhook notifications, modern React frontend, dark/light themes.'',
         metadata = \<lparr>type = product, tags = [''features'', ''IMAP'', ''AI''], priority = 1,
                     context' = None\<rparr>,
         similarity = 0.7\<rparr>,
        \<lparr>content = ''Technical stack: Node.js, Express, TypeScript, React 18, Elasticsearch, Hugging Face AI, ChromaDB for vector search.'',
         metadata = \<lparr>type = product, tags = [''tech stack'', ''Node.js'', ''React''], priority = 2,
                     context' = None\<rparr>,
         similarity = 0.6\<rparr>]"

definition getFallbackReplyTemplates :: "string \<Rightarrow> nat \<Rightarrow> TemplateResult list" where
  "getFallbackReplyTemplates query limit =
     take limit
       [\<lparr>scenario = ''Job application follow-up when interviewer shows interest'',
         template = ''Thank you for your interest in my application! I'm excited about the opportunity to discuss how I can contribute to your team. You can schedule a convenient time for our interview here: https://cal.com/example'',
         variables = [''meeting_link''],
         category = ''job_interview'',
         similarity = 0.8\<rparr>,
        \<lparr>scenario = ''Product demo request from potential client'',
         template = ''Thank you for your interest in OneBox-AI! I'd be delighted to show you how our AI-powered email management platform can streamline your workflow. You can book a demo session here: https://cal.com/example'',
         variables = [''meeting_link'', ''product_name''],
         category = ''sales_demo'',
         similarity = 0.7\<rparr>]"

text \<open>
  \<open>searchKnowledge\<close> and \<open>searchReplyTemplates\<close>. When the service is connected the
  collection is queried; \<open>answer\<close> is what the server answers: an error, or the matches
  with, for each, the document or the metadata and the cosine distance
  (\<open>results.documents[0]\<close>, \<open>results.metadatas[0]\<close> and \<open>results.distances[0]\<close>, read in
  parallel).
\<close>

definition searchKnowledge ::
  "store \<Rightarrow> (string \<times> KnowledgeMetadata \<times> real) list outcome \<Rightarrow> string \<Rightarrow> nat
     \<Rightarrow> js_error + KnowledgeResult list" where
  "searchKnowledge st answer query limit =
     (if \<not> isConnected st then Inr (getFallbackKnowledge query limit)
      else case answer of
             Failure error \<Rightarrow> Inl error
           | Success results \<Rightarrow>
               Inr (map (\<lambda>(doc, meta, distance).
                          \<lparr>content = doc, metadata = meta, similarity = 1 - distance\<rparr>)
                        results))"

definition searchReplyTemplates ::
  "store \<Rightarrow> (ReplyTemplate \<times> real) list outcome \<Rightarrow> string \<Rightarrow> nat
     \<Rightarrow> js_error + TemplateResult list" where
  "searchReplyTemplates st answer query limit =
     (if \<not> isConnected st then Inr (getFallbackReplyTemplates query limit)
      else case answer of
             Failure error \<Rightarrow> Inl error
           | Success results \<Rightarrow>
               Inr (map (\<lambda>(meta, distance).
                          \<lparr>scenario = scenario meta, template = template meta,
                           variables = variables meta, category = ReplyTemplate.category meta,
                           similarity = 1 - distance\<rparr>)
                        results))"

section \<open>The reply pipeline (class \<open>RAGService\<close>)\<close>

record EmailContext =
  subject :: string
  body :: string
  from' :: string
  to' :: "string list"
  date :: string

datatype tone = professional | friendly | formal

record ReplyContext =
  relevantKnowledge :: "KnowledgeResult list"
  matchedTemplate :: "TemplateResult option"
  reasoning :: string

record ReplyMetadata =
  category :: string
  tone :: tone
  action_required :: bool
  estimated_response_time :: string

record SuggestedReply =
  id' :: string
  content :: string
  confidence :: real
  context' :: ReplyContext
  metadata :: ReplyMetadata

text \<open>
  A chat completion is read through \<open>response.choices[0].message?.content?.trim()\<close>: the
  response is modelled by the list of its choices, each the content of its message or
  \<open>None\<close> when the message or its content is missing. Reading \<open>choices[0]\<close> of an empty
  list raises a \<open>TypeError\<close>.
\<close>

type_synonym chat_response = "string option list"

definition TypeError :: js_error where
  "TypeError = \<lparr>message = ''TypeError'', status = None, code = None\<rparr>"

text \<open>
  \<open>analyzeEmailIntent\<close>: \<open>answer\<close> is the answer of the chat API to the prompt built from
  the email. Every exception inside \<open>try\<close> gives the default.
\<close>

definition analyzeEmailIntent :: "chat_response outcome \<Rightarrow> EmailContext \<Rightarrow> string" where
  "analyzeEmailIntent answer email =
     (case answer of
        Failure error \<Rightarrow> ''General inquiry''
      | Success choices \<Rightarrow>
          (case choices of
             [] \<Rightarrow> ''General inquiry''
           | c # _ \<Rightarrow> or_default (map_option trim c) ''General inquiry''))"

text \<open>
  \<open>generateTemplateBasedReply\<close>: \<open>now\<close> is \<open>Date.now()\<close> and \<open>meeting_link_env\<close> the
  environment variable \<open>MEETING_LINK\<close>. The three variables are substituted in the order
  of \<open>Object.entries\<close>.
\<close>

definition generateTemplateBasedReply ::
  "nat \<Rightarrow> string option \<Rightarrow> EmailContext \<Rightarrow> TemplateResult \<Rightarrow> KnowledgeResult list
     \<Rightarrow> SuggestedReply" where
  "generateTemplateBasedReply now meeting_link_env email t knowledgeResults =
     (let variables =
            [(''meeting_link'', or_default meeting_link_env ''https://cal.com/example''),
             (''product_name'', ''OneBox-AI''),
             (''sender_name'', or_default (Some (split_first CHR ''@'' (from' email))) ''there'')];
          customizedReply =
            foldl (\<lambda>reply (key, value). replace_all (''{{'' @ key @ ''}}'') value reply)
                  (template t) variables
      in \<lparr>id' = ''template_'' @ show_nat now,
          content = customizedReply,
          confidence = TemplateResult.similarity t,
          context' =
            \<lparr>relevantKnowledge = take 2 knowledgeResults,
             matchedTemplate = Some t,
             reasoning = ''Matched template for '' @ ReplyTemplate.category t
               @ '' scenario with ''
               @ show_int (math_round (TemplateResult.similarity t * 100))
               @ ''% confidence''\<rparr>,
          metadata =
            \<lparr>category = ReplyTemplate.category t,
             tone = professional,
             action_required = includes' customizedReply ''http'',
             estimated_response_time = ''immediate''\<rparr>\<rparr>)"

text \<open>\<open>categorizeEmail\<close>; the intent is not used.\<close>

definition categorizeEmail :: "EmailContext \<Rightarrow> string \<Rightarrow> string" where
  "categorizeEmail email intent =
     (let subject = toLowerCase (subject email);
          body = toLowerCase (body email)
      in if includes' subject ''interview'' \<or> includes' body ''interview'' then ''job_interview''
         else if includes' subject ''meeting'' \<or> includes' body ''meeting'' then ''meeting''
         else if includes' subject ''demo'' \<or> includes' body ''demo'' then ''sales_demo''
         else if includes' subject ''support'' \<or> includes' body ''help'' then ''technical_support''
         else if includes' subject ''collaboration'' \<or> includes' body ''project''
              then ''collaboration''
         else ''general'')"

text \<open>
  \<open>generateAIContextualReply\<close>: \<open>answer\<close> is the answer of the chat API to the prompt built
  from the results, the email and the intent. The \<open>catch\<close> block rethrows.
\<close>

definition generateAIContextualReply ::
  "nat \<Rightarrow> chat_response outcome \<Rightarrow> EmailContext \<Rightarrow> KnowledgeResult list
     \<Rightarrow> TemplateResult list \<Rightarrow> string \<Rightarrow> js_error + SuggestedReply" where
  "generateAIContextualReply now answer email knowledgeResults templateResults intent =
     (case answer of
        Failure error \<Rightarrow> Inl error
      | Success choices \<Rightarrow>
          (case choices of
             [] \<Rightarrow> Inl TypeError
           | c # _ \<Rightarrow>
               (let content =
                      or_default (map_option trim c)
                        ''Thank you for your email. I'll review your message and respond accordingly.''
                in Inr \<lparr>id' = ''ai_'' @ show_nat now,
                        content = content,
                        confidence = 0.8,
                        context' =
                          \<lparr>relevantKnowledge = knowledgeResults,
                           matchedTemplate =
                             (case templateResults of [] \<Rightarrow> None | t # _ \<Rightarrow> Some t),
                           reasoning =
                             ''AI-generated response using retrieved context and templates''\<rparr>,
                        metadata =
                          \<lparr>category = categorizeEmail email intent,
                           tone = professional,
                           action_required =
                             (includes' content ''http'' \<or> includes' content ''schedule''),
                           estimated_response_time = ''immediate''\<rparr>\<rparr>)))"

text \<open>\<open>generateQuickResponse\<close>; \<open>None\<close> is \<open>null\<close>.\<close>

definition generateQuickResponse :: "nat \<Rightarrow> EmailContext \<Rightarrow> string \<Rightarrow> SuggestedReply option" where
  "generateQuickResponse now email intent =
     (let subject = toLowerCase (subject email);
          body = toLowerCase (body email)
      in if includes' subject ''thank'' \<or> includes' body ''thank you'' then
           Some \<lparr>id' = ''quick_'' @ show_nat now,
                 content = ''You're welcome! Feel free to reach out if you have any other questions.'',
                 confidence = 0.9,
                 context' = \<lparr>relevantKnowledge = [], matchedTemplate = None,
                             reasoning = ''Quick response for thank you message''\<rparr>,
                 metadata = \<lparr>category = ''acknowledgment'', tone = friendly,
                             action_required = False,
                             estimated_response_time = ''immediate''\<rparr>\<rparr>
         else if includes' subject ''confirm'' \<or> includes' body ''confirm'' then
           Some \<lparr>id' = ''quick_'' @ show_nat now,
                 content = ''Confirmed! I'll make a note of this. Thank you for letting me know.'',
                 confidence = 0.8,
                 context' = \<lparr>relevantKnowledge = [], matchedTemplate = None,
                             reasoning = ''Quick response for confirmation request''\<rparr>,
                 metadata = \<lparr>category = ''confirmation'', tone = professional,
                             action_required = False,
                             estimated_response_time = ''immediate''\<rparr>\<rparr>
         else None)"

text \<open>The suggestion returned by the \<open>catch\<close> block of \<open>generateReplySuggestions\<close>.\<close>

definition fallbackSuggestion :: SuggestedReply where
  "fallbackSuggestion =
     \<lparr>id' = ''fallback'',
      content = ''Thank you for your email. I will review your message and get back to you soon.'',
      confidence = 0.5,
      context' = \<lparr>relevantKnowledge = [], matchedTemplate = None,
                  reasoning = ''Fallback response due to processing error''\<rparr>,
      metadata = \<lparr>category = ''general'', tone = professional, action_required = True,
                  estimated_response_time = ''24 hours''\<rparr>\<rparr>"

text \<open>
  What the outside world contributes to one run of \<open>generateReplySuggestions\<close>: the answers
  of the chat API to the intent prompt and to the reply prompt, the answers of the Chroma
  server to the two queries, the environment variable \<open>MEETING_LINK\<close> and the three readings
  of \<open>Date.now()\<close>.
\<close>

record world =
  intent_answer :: "chat_response outcome"
  knowledge_answer :: "(string \<times> KnowledgeMetadata \<times> real) list outcome"
  templates_answer :: "(ReplyTemplate \<times> real) list outcome"
  reply_answer :: "chat_response outcome"
  MEETING_LINK :: "string option"
  now_template :: nat
  now_ai :: nat
  now_quick :: nat

text \<open>
  The \<open>try\<close> block of \<open>generateReplySuggestions\<close>; \<open>Inl\<close> is an exception that leaves it.
  \<open>Promise.all\<close> rejects as soon as one of the two searches rejects.
\<close>

definition generateReplySuggestions_try ::
  "world \<Rightarrow> store \<Rightarrow> EmailContext \<Rightarrow> js_error + SuggestedReply list" where
  "generateReplySuggestions_try w st email =
     (let intent = analyzeEmailIntent (intent_answer w) email;
          searchQuery = subject email @ '' '' @ body email @ '' '' @ intent
      in case searchKnowledge st (knowledge_answer w) searchQuery 3 of
           Inl error \<Rightarrow> Inl error
         | Inr knowledgeResults \<Rightarrow>
             (case searchReplyTemplates st (templates_answer w) searchQuery 2 of
                Inl error \<Rightarrow> Inl error
              | Inr templateResults \<Rightarrow>
                  (let suggestions1 =
                         (if length templateResults > 0
                             \<and> TemplateResult.similarity (templateResults ! 0) > 0.7
                          then [generateTemplateBasedReply (now_template w) (MEETING_LINK w)
                                  email (templateResults ! 0) knowledgeResults]
                          else [])
                   in case generateAIContextualReply (now_ai w) (reply_answer w) email
                             knowledgeResults templateResults intent of
                        Inl error \<Rightarrow> Inl error
                      | Inr aiSuggestion \<Rightarrow>
                          (let suggestions2 = suggestions1 @ [aiSuggestion]
                           in case generateQuickResponse (now_quick w) email intent of
                                Some quickResponse \<Rightarrow> Inr (suggestions2 @ [quickResponse])
                              | None \<Rightarrow> Inr suggestions2))))"

definition generateReplySuggestions :: "world \<Rightarrow> store \<Rightarrow> EmailContext \<Rightarrow> SuggestedReply list" where
  "generateReplySuggestions w st email =
     (case generateReplySuggestions_try w st email of
        Inl error \<Rightarrow> [fallbackSuggestion]
      | Inr suggestions \<Rightarrow> suggestions)"

text \<open>A suggestion is recognised as template-based by the prefix of its id.\<close>

definition is_template_suggestion :: "SuggestedReply \<Rightarrow> bool" where
  "is_template_suggestion r = (take 9 (id' r) = ''template_'')"

section \<open>Notions used in the statements\<close>

text \<open>\<open>k\<close> is a substring of \<open>s\<close>.\<close>

definition occurs_in :: "string \<Rightarrow> string \<Rightarrow> bool" where
  "occurs_in k s \<longleftrightarrow> (\<exists>p q. s = p @ k @ q)"

text \<open>
  The quick response of a run as a list: the suggestion of \<open>generateQuickResponse\<close>, or
  nothing when it returns \<open>null\<close>.
\<close>

definition quick_list :: "world \<Rightarrow> EmailContext \<Rightarrow> SuggestedReply list" where
  "quick_list w email =
     (case generateQuickResponse (now_quick w) email (analyzeEmailIntent (intent_answer w) email) of
        Some quickResponse \<Rightarrow> [quickResponse] | None \<Rightarrow> [])"

text \<open>\<open>stats()\<close> of a store whose server answers.\<close>

definition stats :: "store \<Rightarrow> js_error + Stats" where
  "stats st = getStats (Success ()) (Success ()) st"

section \<open>Example inputs\<close>

text \<open>
  Answers of the embedding API used in the examples below: an authentication failure
  (status 401) and a rate-limit response (status 429), each given to every request; and
  a clock that stands still.
\<close>

definition unauthorized :: js_error where
  "unauthorized =
     \<lparr>message = ''Incorrect API key provided'', status = Some 401,
      code = Some ''invalid_api_key''\<rparr>"

definition rate_limited :: js_error where
  "rate_limited =
     \<lparr>message = ''Rate limit reached'', status = Some 429,
      code = Some ''rate_limit_exceeded''\<rparr>"

definition always_unauthorized :: "nat \<Rightarrow> embedding outcome" where
  "always_unauthorized k = Failure unauthorized"

definition always_rate_limited :: "nat \<Rightarrow> embedding outcome" where
  "always_rate_limited k = Failure rate_limited"

definition frozen_clock :: "nat \<Rightarrow> real" where
  "frozen_clock k = 0"

text \<open>
  Emails, stores and answers of the outside world used in the examples. In \<open>api_outage\<close>
  every external call fails; in \<open>offline_world\<close> the chat API answers and the Chroma server
  does not; in \<open>answering_world distance\<close> every call is answered and the template query
  returns the demo template at the given cosine distance; \<open>synthesis_outage\<close> is that world
  with a chat API that fails for the reply; in \<open>empty_template_world\<close> the stored template
  has an empty text. \<open>demo_match distance\<close> is the result of the template search in
  \<open>answering_world distance\<close>. For the store, \<open>chroma_ok\<close> accepts every request and
  \<open>first_uuids\<close>, \<open>second_uuids\<close> are two disjoint supplies of ids.
\<close>

definition note_email :: EmailContext where
  "note_email =
     \<lparr>subject = ''Hello'', body = ''Thanks a lot'', from' = ''alice@example.com'',
      to' = [''bob@co.com''], date = ''2024-01-01T00:00:00Z''\<rparr>"

definition confirm_email :: EmailContext where
  "confirm_email =
     \<lparr>subject = ''Hello'', body = ''Thanks, please confirm'', from' = ''alice@example.com'',
      to' = [''bob@co.com''], date = ''2024-01-01T00:00:00Z''\<rparr>"

definition support_email :: EmailContext where
  "support_email =
     \<lparr>subject = ''Question'', body = ''Please support us'', from' = ''alice@example.com'',
      to' = [''bob@co.com''], date = ''2024-01-01T00:00:00Z''\<rparr>"

definition update_email :: EmailContext where
  "update_email =
     \<lparr>subject = ''Thank you for the update'',
      body = ''Thank you so much, confirm the meeting please.'',
      from' = ''alice@example.com'', to' = [''bob@co.com''], date = ''2024-01-01T00:00:00Z''\<rparr>"

definition help_email :: EmailContext where
  "help_email =
     \<lparr>subject = ''Support request'', body = ''The sync stopped'', from' = ''alice@example.com'',
      to' = [''bob@co.com''], date = ''2024-01-01T00:00:00Z''\<rparr>"

definition disconnected_store :: store where
  "disconnected_store = \<lparr>isConnected = False, knowledgeCollection = [], templatesCollection = []\<rparr>"

definition connected_store :: store where
  "connected_store = \<lparr>isConnected = True, knowledgeCollection = [], templatesCollection = []\<rparr>"

definition unreachable :: js_error where
  "unreachable = \<lparr>message = ''fetch failed'', status = None, code = None\<rparr>"

definition api_outage :: world where
  "api_outage =
     \<lparr>intent_answer = Failure unauthorized, knowledge_answer = Failure unreachable,
      templates_answer = Failure unreachable, reply_answer = Failure unauthorized,
      MEETING_LINK = None, now_template = 1704067200000, now_ai = 1704067200000,
      now_quick = 1704067200000\<rparr>"

definition offline_world :: world where
  "offline_world =
     \<lparr>intent_answer = Success [Some '' The sender says thanks. ''],
      knowledge_answer = Failure unreachable,
      templates_answer = Failure unreachable,
      reply_answer = Success [Some ''You are welcome.''],
      MEETING_LINK = None, now_template = 1704067200000, now_ai = 1704067200001,
      now_quick = 1704067200002\<rparr>"

definition answering_world :: "real \<Rightarrow> world" where
  "answering_world distance =
     \<lparr>intent_answer = Success [Some ''The sender asks for a demo.''],
      knowledge_answer = Success [],
      templates_answer = Success [(outreachTemplates ! 2, distance)],
      reply_answer = Success [Some ''Happy to show you the product.''],
      MEETING_LINK = None, now_template = 1704067200000, now_ai = 1704067200000,
      now_quick = 1704067200000\<rparr>"

definition empty_template_world :: world where
  "empty_template_world =
     \<lparr>intent_answer = Success [Some ''The sender asks for a demo.''],
      knowledge_answer = Success [],
      templates_answer =
        Success [(\<lparr>scenario = ''Placeholder'', template = '''', variables = [],
                   category = ''general''\<rparr>, 0.1)],
      reply_answer = Success [Some ''Happy to show you the product.''],
      MEETING_LINK = None, now_template = 1704067200000, now_ai = 1704067200000,
      now_quick = 1704067200000\<rparr>"

definition demo_email :: EmailContext where
  "demo_email =
     \<lparr>subject = ''Demo request'', body = ''Could you show us the product?'',
      from' = ''carol@example.com'', to' = [''bob@co.com''], date = ''2024-01-01T00:00:00Z''\<rparr>"

definition synthesis_outage :: world where
  "synthesis_outage = (answering_world 0.29)\<lparr>reply_answer := Failure unauthorized\<rparr>"

definition demo_match :: "real \<Rightarrow> TemplateResult list" where
  "demo_match distance =
     [\<lparr>scenario = scenario (outreachTemplates ! 2), template = template (outreachTemplates ! 2),
       variables = variables (outreachTemplates ! 2),
       category = ReplyTemplate.category (outreachTemplates ! 2),
       similarity = 1 - distance\<rparr>]"

definition chroma_ok :: "nat \<Rightarrow> unit outcome" where
  "chroma_ok k = Success ()"

definition first_uuids :: "nat \<Rightarrow> string" where
  "first_uuids k = ''uuid-'' @ show_nat k"

definition second_uuids :: "nat \<Rightarrow> string" where
  "second_uuids k = ''uuid-'' @ show_nat (k + 7)"

definition reachable_world :: init_world where
  "reachable_world =
     \<lparr>collections_answer = Success (), count_answer1 = Success (), count_answer2 = Success (),
      seed_uuids = first_uuids, seed_answers = chroma_ok,
      reseed_uuids = second_uuids, reseed_answers = chroma_ok\<rparr>"

section \<open>Properties of the fallback embedding\<close>

lemma length_fallback_loop: "length (fallback_loop t i e) = length e"
  by (induction t i e rule: fallback_loop.induct)
     (subst fallback_loop.simps, simp add: Let_def)

lemma foldl_sum_squares: "foldl (\<lambda>sum val. sum + val * val) a xs = a + (\<Sum>x\<leftarrow>xs. x\<^sup>2)"
  for a :: real
  by (induction xs arbitrary: a) (simp_all add: power2_eq_square)

lemma magnitude_l2_norm: "magnitude v = l2_norm v"
  by (simp add: magnitude_def l2_norm_def foldl_sum_squares)

lemma sum_squares_nonneg: "0 \<le> (\<Sum>x\<leftarrow>v. x\<^sup>2)" for v :: "real list"
  by (induction v) simp_all

lemma sum_squares_zero_iff: "(\<Sum>x\<leftarrow>v. x\<^sup>2) = 0 \<longleftrightarrow> v = replicate (length v) 0" for v :: "real list"
proof (induction v)
  case Nil
  then show ?case by simp
next
  case (Cons x v)
  have "x\<^sup>2 + (\<Sum>y\<leftarrow>v. y\<^sup>2) = 0 \<longleftrightarrow> x\<^sup>2 = 0 \<and> (\<Sum>y\<leftarrow>v. y\<^sup>2) = 0"
    using sum_squares_nonneg [of v] by (simp add: add_nonneg_eq_0_iff)
  with Cons show ?case by simp
qed

lemma l2_norm_zero_iff: "l2_norm v = 0 \<longleftrightarrow> v = replicate (length v) 0"
  by (simp add: l2_norm_def sum_squares_zero_iff)

lemma l2_norm_zeros: "l2_norm (replicate n 0) = 0"
  by (simp add: l2_norm_zero_iff)

lemma l2_norm_nonneg: "0 \<le> l2_norm v"
  by (simp add: l2_norm_def sum_squares_nonneg)

lemma sum_squares_scaled: "(\<Sum>x\<leftarrow>v. (x / m)\<^sup>2) = (\<Sum>x\<leftarrow>v. x\<^sup>2) / m\<^sup>2" for m :: real
  by (induction v) (simp_all add: power_divide add_divide_distrib)

lemma l2_norm_scaled: "0 < m \<Longrightarrow> l2_norm (map (\<lambda>val. val / m) v) = l2_norm v / m"
  by (simp add: l2_norm_def o_def sum_squares_scaled real_sqrt_divide)

lemma fallback_loop_step:
  "i < length t \<Longrightarrow>
   fallback_loop t i e =
     fallback_loop t (Suc i)
       (e[(t ! i + i) mod length e := e ! ((t ! i + i) mod length e) + sin (real (t ! i * i)) * 0.01])"
  by (subst fallback_loop.simps) (simp add: Let_def)

lemma fallback_loop_done: "\<not> i < length t \<Longrightarrow> fallback_loop t i e = e"
  by (subst fallback_loop.simps) simp

lemma zeros_update_zero: "i < n \<Longrightarrow> (replicate n (0::real))[i := 0] = replicate n 0"
  by (rule nth_equalityI) (simp_all add: nth_list_update)

lemma single_unit_loop: "fallback_loop [c] 0 (replicate 1536 0) = replicate 1536 0"
  by (simp add: fallback_loop_step fallback_loop_done zeros_update_zero)

lemma single_unit_embedding: "generateFallbackEmbedding [c] = replicate 1536 0"
  by (simp add: generateFallbackEmbedding_def single_unit_loop magnitude_l2_norm l2_norm_zero_iff Let_def)

lemma two_unit_loop:
  "fallback_loop [97, 1] 0 (replicate 1536 0) = (replicate 1536 0)[Suc (Suc 0) := sin 1 * 0.01]"
  by (simp add: fallback_loop_step fallback_loop_done zeros_update_zero)

lemma two_unit_nonzero: "fallback_loop [97, 1] 0 (replicate 1536 0) \<noteq> replicate 1536 0"
proof
  assume "fallback_loop [97, 1] 0 (replicate 1536 0) = replicate 1536 0"
  then have "(replicate 1536 (0::real))[Suc (Suc 0) := sin 1 * 0.01] ! Suc (Suc 0)
             = replicate 1536 (0::real) ! Suc (Suc 0)"
    by (simp only: two_unit_loop)
  then have "sin (1::real) * 0.01 = 0" by simp
  moreover have "0 < sin (1::real)" by (rule sin_gt_zero_02) simp_all
  ultimately show False by simp
qed

text \<open>
  C10. For every text of exactly one character, \<open>generateFallbackEmbedding\<close> returns the
  zero vector of dimension 1536: the only term added is \<open>sin (char * 0) * 0.01 = 0\<close>, the
  magnitude is \<open>0\<close>, the normalisation is skipped, and the Euclidean norm of the result is
  \<open>0\<close>, not \<open>1\<close>.
\<close>

theorem one_character_embedding_is_zero:
  "length t = 1 \<Longrightarrow>
   generateFallbackEmbedding t = replicate 1536 0
   \<and> magnitude (fallback_loop t 0 (replicate 1536 0)) = 0
   \<and> l2_norm (generateFallbackEmbedding t) = 0"
proof -
  assume "length t = 1"
  then obtain c where t: "t = [c]"
    by (cases t) simp_all
  show ?thesis
    unfolding t
    by (simp add: single_unit_embedding single_unit_loop magnitude_l2_norm l2_norm_zero_iff)
qed

theorem one_character_embedding_is_zero_witness:
  "length [97::nat] = 1
   \<and> generateFallbackEmbedding [97] = replicate 1536 0
   \<and> l2_norm (generateFallbackEmbedding [97]) = 0"
  using one_character_embedding_is_zero [of "[97]"] by (simp add: l2_norm_zeros)

text \<open>
  C4, as the code has it. \<open>generateFallbackEmbedding\<close> reads nothing but its argument, so
  equal texts give equal vectors. The vector has 1536 entries. If the accumulated vector
  is not the zero vector, the result has Euclidean norm 1; if it is the zero vector (as
  for every text of one character, and for the empty text), the zero vector is returned
  unchanged and its norm is 0.
\<close>

theorem fallback_embedding_norm:
  "length (generateFallbackEmbedding t) = 1536 \<and>
   (if fallback_loop t 0 (replicate 1536 0) = replicate 1536 0
    then generateFallbackEmbedding t = replicate 1536 0 \<and> l2_norm (generateFallbackEmbedding t) = 0
    else l2_norm (generateFallbackEmbedding t) = 1)"
proof -
  let ?e = "fallback_loop t 0 (replicate 1536 0)"
  have len: "length ?e = 1536" by (simp add: length_fallback_loop)
  show ?thesis
  proof (cases "?e = replicate 1536 0")
    case True
    then show ?thesis
      by (simp add: generateFallbackEmbedding_def magnitude_l2_norm l2_norm_zero_iff Let_def)
  next
    case False
    with len have "l2_norm ?e \<noteq> 0" by (simp add: l2_norm_zero_iff)
    with l2_norm_nonneg [of ?e] have pos: "0 < l2_norm ?e" by simp
    with False len show ?thesis
      by (simp add: generateFallbackEmbedding_def magnitude_l2_norm Let_def l2_norm_scaled)
  qed
qed

text \<open>The text \<open>a\<close> is not empty and its fallback embedding does not have norm 1.\<close>

theorem fallback_embedding_norm_counterexample:
  "[97::nat] \<noteq> [] \<and> l2_norm (generateFallbackEmbedding [97]) \<noteq> 1"
  by (simp add: single_unit_embedding l2_norm_zeros)

text \<open>The text of the two code units 97 and 1 is normalised.\<close>

theorem fallback_embedding_norm_witness:
  "fallback_loop [97, 1] 0 (replicate 1536 0) \<noteq> replicate 1536 0
   \<and> l2_norm (generateFallbackEmbedding [97, 1]) = 1"
  using fallback_embedding_norm [of "[97, 1]"] two_unit_nonzero by simp

section \<open>Properties of \<open>generateEmbeddings\<close>\<close>

lemma wait_bounds [simp]: "delay_in_bounds (waitForRateLimit now rl) = delay_in_bounds rl"
  by (simp add: delay_in_bounds_def waitForRateLimit_def)

lemma backoff_bounds: "delay_in_bounds rl \<Longrightarrow> delay_in_bounds (backoff_delay rl)"
  by (simp add: delay_in_bounds_def backoff_delay_def)

lemma decay_bounds: "delay_in_bounds rl \<Longrightarrow> delay_in_bounds (decay_delay rl)"
  by (simp add: delay_in_bounds_def decay_delay_def)

lemma loop_bounds:
  "delay_in_bounds rl \<Longrightarrow> delay_in_bounds (snd (generateEmbeddings_loop clock provider t retries rl))"
proof (induction clock provider t retries rl rule: generateEmbeddings_loop.induct)
  case (1 clock provider t retries rl)
  show ?case
  proof (cases "provider retries")
    case (Success e)
    with "1.prems" show ?thesis
      by (subst generateEmbeddings_loop.simps) (simp add: decay_bounds)
  next
    case (Failure error)
    with "1.prems" "1.IH" [OF _ refl Failure _ refl] show ?thesis
      by (subst generateEmbeddings_loop.simps) (simp add: backoff_bounds Let_def)
  qed
qed

lemma generate_bounds:
  "delay_in_bounds rl \<Longrightarrow> delay_in_bounds (snd (generate clocks providers ts rl))"
proof (induction ts arbitrary: clocks providers rl)
  case Nil
  then show ?case by simp
next
  case (Cons t ts)
  have "delay_in_bounds (snd (generateEmbeddings (clocks 0) (providers 0) t rl))"
    using Cons.prems by (simp add: generateEmbeddings_def loop_bounds)
  then show ?case
    using Cons.IH by (simp add: split_beta Let_def)
qed

lemma length_generate: "length (fst (generate clocks providers ts rl)) = length ts"
  by (induction ts arbitrary: clocks providers rl) (simp_all add: split_beta Let_def)

lemma backoff_pow:
  "rateLimitDelay ((backoff_delay ^^ n) initial_rate_limiter) = min 30000 (1000 * 2 ^ n)"
proof (induction n)
  case 0
  then show ?case by (simp add: initial_rate_limiter_def)
next
  case (Suc n)
  have "(1::real) \<le> 2 ^ n" by simp
  then show ?case using Suc by (simp add: backoff_delay_def min_def)
qed

lemma loop_at_2:
  "generateEmbeddings_loop clock provider t (Suc (Suc 0)) rl =
     (case provider (Suc (Suc 0)) of
        Success e \<Rightarrow> (Inr e, decay_delay (waitForRateLimit (clock (Suc (Suc 0))) rl))
      | Failure error \<Rightarrow>
          if js_error.status error = Some 429
          then (Inr (generateFallbackEmbedding t), backoff_delay (waitForRateLimit (clock (Suc (Suc 0))) rl))
          else if code error = Some ''insufficient_quota''
          then (Inr (generateFallbackEmbedding t), waitForRateLimit (clock (Suc (Suc 0))) rl)
          else (Inl error, waitForRateLimit (clock (Suc (Suc 0))) rl))"
  by (subst generateEmbeddings_loop.simps) (simp add: maxRetries_def Let_def split: outcome.split)

lemma loop_at_1:
  "generateEmbeddings_loop clock provider t (Suc 0) rl =
     (case provider (Suc 0) of
        Success e \<Rightarrow> (Inr e, decay_delay (waitForRateLimit (clock (Suc 0)) rl))
      | Failure error \<Rightarrow>
          if js_error.status error = Some 429
          then generateEmbeddings_loop clock provider t (Suc (Suc 0)) (backoff_delay (waitForRateLimit (clock (Suc 0)) rl))
          else if code error = Some ''insufficient_quota''
          then (Inr (generateFallbackEmbedding t), waitForRateLimit (clock (Suc 0)) rl)
          else (Inl error, waitForRateLimit (clock (Suc 0)) rl))"
  by (subst generateEmbeddings_loop.simps) (simp add: maxRetries_def Let_def split: outcome.split)

lemma loop_at_0:
  "generateEmbeddings_loop clock provider t 0 rl =
     (case provider 0 of
        Success e \<Rightarrow> (Inr e, decay_delay (waitForRateLimit (clock 0) rl))
      | Failure error \<Rightarrow>
          if js_error.status error = Some 429
          then generateEmbeddings_loop clock provider t (Suc 0) (backoff_delay (waitForRateLimit (clock 0) rl))
          else if code error = Some ''insufficient_quota''
          then (Inr (generateFallbackEmbedding t), waitForRateLimit (clock 0) rl)
          else (Inl error, waitForRateLimit (clock 0) rl))"
  by (subst generateEmbeddings_loop.simps) (simp add: maxRetries_def Let_def split: outcome.split)

lemmas loop_unfolded = loop_at_0 loop_at_1 loop_at_2

lemma three_rate_limits:
  "is_rate_limit (provider 0) \<Longrightarrow> is_rate_limit (provider 1) \<Longrightarrow> is_rate_limit (provider 2) \<Longrightarrow>
   generateEmbeddings clock provider t rl =
     (Inr (generateFallbackEmbedding t),
      backoff_delay (waitForRateLimit (clock 2)
        (backoff_delay (waitForRateLimit (clock 1) (backoff_delay (waitForRateLimit (clock 0) rl))))))"
  by (auto simp: generateEmbeddings_def loop_unfolded is_rate_limit_def numeral_2_eq_2 split: outcome.splits)

lemma no_other_failure_returns:
  "\<not> is_other_failure (provider 0) \<Longrightarrow> \<not> is_other_failure (provider (Suc 0)) \<Longrightarrow>
   \<not> is_other_failure (provider (Suc (Suc 0))) \<Longrightarrow>
   \<exists>v. fst (generateEmbeddings clock provider t rl) = Inr v"
  by (auto simp: generateEmbeddings_def loop_unfolded is_other_failure_def split: outcome.splits)

lemma other_failure_raises:
  "provider 0 = Failure error \<Longrightarrow> is_other_failure (provider 0) \<Longrightarrow>
   generateEmbeddings clock provider t rl = (Inl error, waitForRateLimit (clock 0) rl)"
  by (simp add: generateEmbeddings_def loop_at_0 is_other_failure_def)

lemma quota_falls_back:
  "is_quota_exhausted (provider 0) \<Longrightarrow>
   generateEmbeddings clock provider t rl
     = (Inr (generateFallbackEmbedding t), waitForRateLimit (clock 0) rl)"
  by (auto simp: generateEmbeddings_def loop_at_0 is_quota_exhausted_def split: outcome.splits)

lemma success_returns:
  "provider 0 = Success e \<Longrightarrow>
   generateEmbeddings clock provider t rl = (Inr e, decay_delay (waitForRateLimit (clock 0) rl))"
  by (simp add: generateEmbeddings_def loop_at_0)

lemma raises_iff:
  "(\<exists>error. fst (generateEmbeddings clock provider t rl) = Inl error) \<longleftrightarrow>
     is_other_failure (provider 0)
     \<or> is_rate_limit (provider 0) \<and> is_other_failure (provider (Suc 0))
     \<or> is_rate_limit (provider 0) \<and> is_rate_limit (provider (Suc 0))
        \<and> is_other_failure (provider (Suc (Suc 0)))"
  by (auto simp: generateEmbeddings_def loop_unfolded is_other_failure_def is_rate_limit_def
           split: outcome.splits)

text \<open>
  C5. The delay starts at 1000 ms. A response with status 429 sets it to
  \<open>min 30000 (2 * delay)\<close>, which is larger than before as long as the delay is below
  30000 and never exceeds 30000; after \<open>n\<close> such responses in a row from the start it is
  \<open>min 30000 (1000 * 2 ^ n)\<close>. A successful request sets it to \<open>max 1000 (0.9 * delay)\<close>.
  The two assignments, \<open>waitForRateLimit\<close>, a whole call of \<open>generateEmbeddings\<close> and a
  whole call of the store's embedding function keep \<open>1000 \<le> rateLimitDelay \<le> 30000\<close>.
  For a whole call: a first request that succeeds leaves \<open>max 1000 (0.9 * delay)\<close>; a
  rate-limit response followed by a success leaves
  \<open>max 1000 (0.9 * min 30000 (2 * delay))\<close>; three rate-limit responses leave
  \<open>min 30000 (8 * delay)\<close>.
\<close>

theorem rate_limit_delay_bounds:
  assumes "delay_in_bounds rl"
  shows "rateLimitDelay initial_rate_limiter = 1000
    \<and> delay_in_bounds initial_rate_limiter
    \<and> rateLimitDelay (backoff_delay rl) = min 30000 (2 * rateLimitDelay rl)
    \<and> (rateLimitDelay rl < 30000 \<longrightarrow> rateLimitDelay rl < rateLimitDelay (backoff_delay rl))
    \<and> rateLimitDelay (backoff_delay rl) \<le> 30000
    \<and> rateLimitDelay ((backoff_delay ^^ n) initial_rate_limiter) = min 30000 (1000 * 2 ^ n)
    \<and> rateLimitDelay (decay_delay rl) = max 1000 (0.9 * rateLimitDelay rl)
    \<and> delay_in_bounds (backoff_delay rl)
    \<and> delay_in_bounds (decay_delay rl)
    \<and> delay_in_bounds (waitForRateLimit now rl)
    \<and> delay_in_bounds (snd (generateEmbeddings clock provider t rl))
    \<and> delay_in_bounds (snd (generate clocks providers ts rl))
    \<and> (provider 0 = Success e \<longrightarrow>
         rateLimitDelay (snd (generateEmbeddings clock provider t rl))
           = max 1000 (0.9 * rateLimitDelay rl))
    \<and> (is_rate_limit (provider 0) \<and> provider 1 = Success e \<longrightarrow>
         rateLimitDelay (snd (generateEmbeddings clock provider t rl))
           = max 1000 (0.9 * min 30000 (2 * rateLimitDelay rl)))
    \<and> (is_rate_limit (provider 0) \<and> is_rate_limit (provider 1) \<and> is_rate_limit (provider 2) \<longrightarrow>
         rateLimitDelay (snd (generateEmbeddings clock provider t rl))
           = min 30000 (8 * rateLimitDelay rl))"
proof -
  have d: "1000 \<le> rateLimitDelay rl" "rateLimitDelay rl \<le> 30000"
    using assms by (simp_all add: delay_in_bounds_def)
  have 1: "rateLimitDelay initial_rate_limiter = 1000"
    by (simp add: initial_rate_limiter_def)
  have 2: "delay_in_bounds initial_rate_limiter"
    by (simp add: initial_rate_limiter_def delay_in_bounds_def)
  have 3: "rateLimitDelay (backoff_delay rl) = min 30000 (2 * rateLimitDelay rl)"
    by (simp add: backoff_delay_def mult.commute)
  have 4: "rateLimitDelay rl < 30000 \<longrightarrow> rateLimitDelay rl < rateLimitDelay (backoff_delay rl)"
    using d by (simp add: backoff_delay_def)
  have 5: "rateLimitDelay (backoff_delay rl) \<le> 30000"
    by (simp add: backoff_delay_def)
  have 6: "rateLimitDelay (decay_delay rl) = max 1000 (0.9 * rateLimitDelay rl)"
    by (simp add: decay_delay_def mult.commute)
  have 7: "delay_in_bounds (snd (generateEmbeddings clock provider t rl))"
    using assms by (simp add: generateEmbeddings_def loop_bounds)
  have 8: "provider 0 = Success e \<longrightarrow>
         rateLimitDelay (snd (generateEmbeddings clock provider t rl))
           = max 1000 (0.9 * rateLimitDelay rl)"
    by (simp add: success_returns decay_delay_def waitForRateLimit_def mult.commute)
  have 9: "is_rate_limit (provider 0) \<and> provider 1 = Success e \<longrightarrow>
         rateLimitDelay (snd (generateEmbeddings clock provider t rl))
           = max 1000 (0.9 * min 30000 (2 * rateLimitDelay rl))"
    by (auto simp: generateEmbeddings_def loop_at_0 loop_at_1 is_rate_limit_def decay_delay_def
          backoff_delay_def waitForRateLimit_def mult.commute split: outcome.splits)
  have 10: "is_rate_limit (provider 0) \<and> is_rate_limit (provider 1) \<and> is_rate_limit (provider 2) \<longrightarrow>
         rateLimitDelay (snd (generateEmbeddings clock provider t rl))
           = min 30000 (8 * rateLimitDelay rl)"
    using d by (auto simp: three_rate_limits backoff_delay_def waitForRateLimit_def)
  have 11: "rateLimitDelay ((backoff_delay ^^ n) initial_rate_limiter) = min 30000 (1000 * 2 ^ n)"
    by (rule backoff_pow)
  have 12: "delay_in_bounds (backoff_delay rl) \<and> delay_in_bounds (decay_delay rl)
      \<and> delay_in_bounds (waitForRateLimit now rl)
      \<and> delay_in_bounds (snd (generate clocks providers ts rl))"
    using assms by (simp add: backoff_bounds decay_bounds generate_bounds)
  from 1 2 3 4 5 6 7 8 9 10 11 12 show ?thesis
    by blast
qed

theorem rate_limit_delay_bounds_witness:
  "delay_in_bounds initial_rate_limiter
   \<and> rateLimitDelay (backoff_delay initial_rate_limiter) = 2000
   \<and> rateLimitDelay ((backoff_delay ^^ 5) initial_rate_limiter) = 30000
   \<and> rateLimitDelay (decay_delay initial_rate_limiter) = 1000
   \<and> delay_in_bounds
        (snd (generateEmbeddings frozen_clock always_rate_limited [104, 105] initial_rate_limiter))
   \<and> rateLimitDelay
        (snd (generateEmbeddings frozen_clock always_rate_limited [104, 105] initial_rate_limiter))
       = 8000"
proof -
  have h: "delay_in_bounds initial_rate_limiter"
    by (simp add: initial_rate_limiter_def delay_in_bounds_def)
  show ?thesis
    using rate_limit_delay_bounds
            [OF h, of 5 0 frozen_clock always_rate_limited "[104, 105]" "\<lambda>i k. 0"
               "\<lambda>i k. Success []" "[]" "[]"]
    by (simp add: initial_rate_limiter_def is_rate_limit_def always_rate_limited_def
          rate_limited_def)
qed

text \<open>
  C3, as the code has it. \<open>generateEmbeddings\<close> returns a vector when a request succeeds,
  when a request fails with the code \<open>insufficient_quota\<close> and a status other than 429
  (the fallback embedding, with no further request), and when three requests in a row are
  answered with status 429 (the fallback embedding). Any other error (an authentication
  failure, a network error) is thrown to the caller, with no further request; the call
  throws exactly when a request is answered with such an error after rate-limit responses
  only. The embedding function handed to the store, \<open>CustomEmbeddingFunction.generate\<close>,
  catches the exception and returns one vector for each text: the fallback embedding
  where \<open>generateEmbeddings\<close> threw.
\<close>

theorem generateEmbeddings_outcomes:
  "(provider 0 = Failure error \<and> is_other_failure (provider 0) \<longrightarrow>
      generateEmbeddings clock provider t rl = (Inl error, waitForRateLimit (clock 0) rl))
   \<and> (is_quota_exhausted (provider 0) \<longrightarrow>
      generateEmbeddings clock provider t rl
        = (Inr (generateFallbackEmbedding t), waitForRateLimit (clock 0) rl))
   \<and> (provider 0 = Success e \<longrightarrow>
      generateEmbeddings clock provider t rl
        = (Inr e, decay_delay (waitForRateLimit (clock 0) rl)))
   \<and> (is_rate_limit (provider 0) \<and> is_rate_limit (provider 1) \<and> is_rate_limit (provider 2) \<longrightarrow>
      fst (generateEmbeddings clock provider t rl) = Inr (generateFallbackEmbedding t))
   \<and> ((\<exists>thrown. fst (generateEmbeddings clock provider t rl) = Inl thrown) \<longleftrightarrow>
        is_other_failure (provider 0)
        \<or> is_rate_limit (provider 0) \<and> is_other_failure (provider 1)
        \<or> is_rate_limit (provider 0) \<and> is_rate_limit (provider 1) \<and> is_other_failure (provider 2))
   \<and> length (fst (generate clocks providers ts rl)) = length ts
   \<and> (is_other_failure (providers 0 0) \<longrightarrow>
        fst (generate clocks providers [t] rl) = [generateFallbackEmbedding t])"
proof -
  have a: "provider 0 = Failure error \<and> is_other_failure (provider 0) \<longrightarrow>
      generateEmbeddings clock provider t rl = (Inl error, waitForRateLimit (clock 0) rl)"
    using other_failure_raises [of provider error clock t rl] by blast
  have b: "is_quota_exhausted (provider 0) \<longrightarrow>
      generateEmbeddings clock provider t rl
        = (Inr (generateFallbackEmbedding t), waitForRateLimit (clock 0) rl)"
    by (simp add: quota_falls_back)
  have c: "provider 0 = Success e \<longrightarrow>
      generateEmbeddings clock provider t rl
        = (Inr e, decay_delay (waitForRateLimit (clock 0) rl))"
    by (simp add: success_returns)
  have d: "is_rate_limit (provider 0) \<and> is_rate_limit (provider 1) \<and> is_rate_limit (provider 2) \<longrightarrow>
      fst (generateEmbeddings clock provider t rl) = Inr (generateFallbackEmbedding t)"
    by (simp add: three_rate_limits numeral_2_eq_2)
  have e: "(\<exists>thrown. fst (generateEmbeddings clock provider t rl) = Inl thrown) \<longleftrightarrow>
        is_other_failure (provider 0)
        \<or> is_rate_limit (provider 0) \<and> is_other_failure (provider 1)
        \<or> is_rate_limit (provider 0) \<and> is_rate_limit (provider 1) \<and> is_other_failure (provider 2)"
    using raises_iff [of clock provider t rl] by (simp add: numeral_2_eq_2)
  have f: "is_other_failure (providers 0 0) \<longrightarrow>
        fst (generate clocks providers [t] rl) = [generateFallbackEmbedding t]"
    by (auto simp: generateEmbeddings_def loop_at_0 is_other_failure_def split: outcome.splits)
  from a b c d e f show ?thesis
    by (simp only: length_generate simp_thms)
qed

text \<open>
  With an invalid API key every request is answered with status 401, and
  \<open>generateEmbeddings\<close> throws that error instead of returning a vector.
\<close>

theorem generateEmbeddings_outcomes_counterexample:
  "fst (generateEmbeddings frozen_clock always_unauthorized [104, 105] initial_rate_limiter)
     = Inl unauthorized"
  by (simp add: generateEmbeddings_def loop_at_0 always_unauthorized_def unauthorized_def)

theorem generateEmbeddings_outcomes_witness:
  "is_rate_limit (always_rate_limited 0) \<and> is_rate_limit (always_rate_limited 1)
   \<and> is_rate_limit (always_rate_limited 2)
   \<and> fst (generateEmbeddings frozen_clock always_rate_limited [104, 105] initial_rate_limiter)
       = Inr (generateFallbackEmbedding [104, 105])
   \<and> is_other_failure (always_unauthorized 0)
   \<and> generateEmbeddings frozen_clock always_unauthorized [104, 105] initial_rate_limiter
       = (Inl unauthorized, waitForRateLimit (frozen_clock 0) initial_rate_limiter)"
  using generateEmbeddings_outcomes
          [of always_rate_limited unauthorized frozen_clock "[104, 105]" initial_rate_limiter "[]"
              "\<lambda>i k. 0" "\<lambda>i k. Success []" "[]"]
        generateEmbeddings_outcomes
          [of always_unauthorized unauthorized frozen_clock "[104, 105]" initial_rate_limiter "[]"
              "\<lambda>i k. 0" "\<lambda>i k. Success []" "[]"]
  by (simp add: is_rate_limit_def is_other_failure_def always_rate_limited_def
        always_unauthorized_def rate_limited_def unauthorized_def)

section \<open>Properties of the keyword rules\<close>

lemma take_length_eq_iff: "take (length xs) ys = xs \<longleftrightarrow> (\<exists>zs. ys = xs @ zs)"
  by (metis append_eq_conv_conj append_take_drop_id)

lemma includes_iff: "includes' s k \<longleftrightarrow> (\<exists>p q. s = p @ k @ q)"
proof (induction s)
  case Nil
  then show ?case by simp
next
  case (Cons c cs)
  show ?case
  proof
    assume "includes' (c # cs) k"
    then consider "take (length k) (c # cs) = k" | "includes' cs k" by auto
    then show "\<exists>p q. c # cs = p @ k @ q"
    proof cases
      case 1
      then obtain q where "c # cs = k @ q" unfolding take_length_eq_iff ..
      then have "c # cs = [] @ k @ q" by simp
      then show ?thesis by blast
    next
      case 2
      with Cons.IH obtain p q where "cs = p @ k @ q" by blast
      then have "c # cs = (c # p) @ k @ q" by simp
      then show ?thesis by blast
    qed
  next
    assume "\<exists>p q. c # cs = p @ k @ q"
    then obtain p q where pq: "c # cs = p @ k @ q" by blast
    show "includes' (c # cs) k"
    proof (cases p)
      case Nil
      with pq have "take (length k) (c # cs) = k" unfolding take_length_eq_iff by auto
      then show ?thesis by simp
    next
      case (Cons d p')
      with pq have "cs = p' @ k @ q" by simp
      with Cons.IH have "includes' cs k" by blast
      then show ?thesis by simp
    qed
  qed
qed

lemma occurs_in_includes: "occurs_in k s \<longleftrightarrow> includes' s k"
  by (simp add: occurs_in_def includes_iff)

lemma toLowerCase_char_idem: "toLowerCase_char (toLowerCase_char c) = toLowerCase_char c"
  by (auto simp: toLowerCase_char_def Let_def take_bit_eq_mod)

lemma toLowerCase_idem: "toLowerCase (toLowerCase s) = toLowerCase s"
  by (simp add: toLowerCase_def toLowerCase_char_idem)

lemmas eval_string = toLowerCase_def toLowerCase_char_def char_of_eq_iff Let_def

text \<open>
  C7, as the code has it. \<open>generateQuickResponse\<close> returns at most one suggestion. The
  thanks pattern is: the lower-cased subject contains \<open>thank\<close>, or the lower-cased body
  contains \<open>thank you\<close>. The confirmation pattern is: the lower-cased subject or body
  contains \<open>confirm\<close>. When the thanks pattern matches, the suggestion is the acknowledgment
  with confidence 0.9, whether or not the confirmation pattern matches too; when only the
  confirmation pattern matches, it is the confirmation with confidence 0.8; in both cases
  \<open>action_required\<close> is false. When neither matches there is no quick response.
\<close>

theorem quick_response_first_match:
  "(occurs_in ''thank'' (toLowerCase (subject email))
      \<or> occurs_in ''thank you'' (toLowerCase (body email)) \<longrightarrow>
      (\<exists>r. generateQuickResponse now email intent = Some r \<and> confidence r = 0.9
           \<and> \<not> action_required (SuggestedReply.metadata r)
           \<and> ReplyMetadata.category (SuggestedReply.metadata r) = ''acknowledgment''))
   \<and> (\<not> (occurs_in ''thank'' (toLowerCase (subject email))
          \<or> occurs_in ''thank you'' (toLowerCase (body email)))
      \<and> (occurs_in ''confirm'' (toLowerCase (subject email))
          \<or> occurs_in ''confirm'' (toLowerCase (body email))) \<longrightarrow>
      (\<exists>r. generateQuickResponse now email intent = Some r \<and> confidence r = 0.8
           \<and> \<not> action_required (SuggestedReply.metadata r)
           \<and> ReplyMetadata.category (SuggestedReply.metadata r) = ''confirmation''))
   \<and> (\<not> (occurs_in ''thank'' (toLowerCase (subject email))
          \<or> occurs_in ''thank you'' (toLowerCase (body email)))
      \<and> \<not> (occurs_in ''confirm'' (toLowerCase (subject email))
          \<or> occurs_in ''confirm'' (toLowerCase (body email))) \<longrightarrow>
      generateQuickResponse now email intent = None)"
  by (simp add: generateQuickResponse_def Let_def occurs_in_includes)

text \<open>
  A body that contains \<open>thank\<close> but not \<open>thank you\<close> gives no quick response; with \<open>confirm\<close>
  in the body as well, the confirmation pattern is the one that answers.
\<close>

theorem quick_response_first_match_counterexample:
  "occurs_in ''thank'' (toLowerCase (body note_email))
   \<and> generateQuickResponse 0 note_email ''General inquiry'' = None
   \<and> occurs_in ''thank'' (toLowerCase (body confirm_email))
   \<and> occurs_in ''confirm'' (toLowerCase (body confirm_email))
   \<and> map_option confidence (generateQuickResponse 0 confirm_email ''General inquiry'') = Some 0.8"
  by (simp add: occurs_in_includes generateQuickResponse_def note_email_def
        confirm_email_def eval_string)

theorem quick_response_first_match_witness:
  "map_option confidence (generateQuickResponse 0 update_email ''General inquiry'') = Some 0.9
   \<and> map_option confidence (generateQuickResponse 0 confirm_email ''General inquiry'') = Some 0.8
   \<and> generateQuickResponse 0 note_email ''General inquiry'' = None"
  using quick_response_first_match [of update_email 0 "''General inquiry''"]
        quick_response_first_match [of confirm_email 0 "''General inquiry''"]
        quick_response_first_match [of note_email 0 "''General inquiry''"]
  by (auto simp: occurs_in_includes update_email_def confirm_email_def
        note_email_def eval_string)

text \<open>
  C8, as the code has it. \<open>categorizeEmail\<close> tests the lower-cased subject and body for
  substrings, in this order, the first match deciding: \<open>interview\<close> in either gives
  \<open>job_interview\<close>; \<open>meeting\<close> in either gives \<open>meeting\<close>; \<open>demo\<close> in either gives
  \<open>sales_demo\<close>; \<open>support\<close> in the subject or \<open>help\<close> in the body gives
  \<open>technical_support\<close>; \<open>collaboration\<close> in the subject or \<open>project\<close> in the body gives
  \<open>collaboration\<close>; otherwise the category is \<open>general\<close>. The result does not depend on
  the case of the letters of the email, nor on the intent.
\<close>

theorem categorizeEmail_rules:
  "(occurs_in ''interview'' (toLowerCase (subject email))
      \<or> occurs_in ''interview'' (toLowerCase (body email)) \<longrightarrow>
      categorizeEmail email intent = ''job_interview'')
   \<and> (\<not> (occurs_in ''interview'' (toLowerCase (subject email))
          \<or> occurs_in ''interview'' (toLowerCase (body email))) \<longrightarrow>
       (occurs_in ''meeting'' (toLowerCase (subject email))
          \<or> occurs_in ''meeting'' (toLowerCase (body email)) \<longrightarrow>
          categorizeEmail email intent = ''meeting'')
       \<and> (\<not> (occurs_in ''meeting'' (toLowerCase (subject email))
              \<or> occurs_in ''meeting'' (toLowerCase (body email))) \<longrightarrow>
           (occurs_in ''demo'' (toLowerCase (subject email))
              \<or> occurs_in ''demo'' (toLowerCase (body email)) \<longrightarrow>
              categorizeEmail email intent = ''sales_demo'')
           \<and> (\<not> (occurs_in ''demo'' (toLowerCase (subject email))
                  \<or> occurs_in ''demo'' (toLowerCase (body email))) \<longrightarrow>
               (occurs_in ''support'' (toLowerCase (subject email))
                  \<or> occurs_in ''help'' (toLowerCase (body email)) \<longrightarrow>
                  categorizeEmail email intent = ''technical_support'')
               \<and> (\<not> (occurs_in ''support'' (toLowerCase (subject email))
                      \<or> occurs_in ''help'' (toLowerCase (body email))) \<longrightarrow>
                   (occurs_in ''collaboration'' (toLowerCase (subject email))
                      \<or> occurs_in ''project'' (toLowerCase (body email)) \<longrightarrow>
                      categorizeEmail email intent = ''collaboration'')
                   \<and> (\<not> (occurs_in ''collaboration'' (toLowerCase (subject email))
                          \<or> occurs_in ''project'' (toLowerCase (body email))) \<longrightarrow>
                       categorizeEmail email intent = ''general'')))))
   \<and> categorizeEmail email intent
       = categorizeEmail
           (email\<lparr>subject := toLowerCase (subject email), body := toLowerCase (body email)\<rparr>)
           intent2"
  by (simp add: categorizeEmail_def Let_def toLowerCase_idem occurs_in_includes)

text \<open>The keyword \<open>support\<close> in the body alone leaves the category \<open>general\<close>.\<close>

theorem categorizeEmail_rules_counterexample:
  "occurs_in ''support'' (toLowerCase (body support_email))
   \<and> categorizeEmail support_email ''General inquiry'' = ''general''"
  by (simp add: occurs_in_includes categorizeEmail_def support_email_def
        eval_string)

theorem categorizeEmail_rules_witness:
  "categorizeEmail help_email ''General inquiry'' = ''technical_support''
   \<and> categorizeEmail update_email ''General inquiry'' = ''meeting''"
  using categorizeEmail_rules [of help_email "''General inquiry''" "''General inquiry''"]
        categorizeEmail_rules [of update_email "''General inquiry''" "''General inquiry''"]
  by (simp add: occurs_in_includes help_email_def update_email_def eval_string)

section \<open>Properties of the reply pipeline\<close>

lemma searchKnowledge_any_query:
  "searchKnowledge st answer query limit = searchKnowledge st answer query2 limit"
  by (simp add: searchKnowledge_def getFallbackKnowledge_def)

lemma searchReplyTemplates_any_query:
  "searchReplyTemplates st answer query limit = searchReplyTemplates st answer query2 limit"
  by (simp add: searchReplyTemplates_def getFallbackReplyTemplates_def)

lemma try_result:
  assumes "searchKnowledge st (knowledge_answer w) query 3 = Inr ks"
    and "searchReplyTemplates st (templates_answer w) query2 2 = Inr ts"
    and "generateAIContextualReply (now_ai w) (reply_answer w) email ks ts
           (analyzeEmailIntent (intent_answer w) email) = Inr ai"
  shows "generateReplySuggestions_try w st email =
     Inr ((if ts \<noteq> [] \<and> TemplateResult.similarity (ts ! 0) > 0.7
           then [generateTemplateBasedReply (now_template w) (MEETING_LINK w) email (ts ! 0) ks]
           else [])
          @ [ai] @ quick_list w email)"
proof -
  let ?q = "subject email @ '' '' @ body email @ '' '' @ analyzeEmailIntent (intent_answer w) email"
  have k: "searchKnowledge st (knowledge_answer w) ?q 3 = Inr ks"
    using assms(1) searchKnowledge_any_query by metis
  have t: "searchReplyTemplates st (templates_answer w) ?q 2 = Inr ts"
    using assms(2) searchReplyTemplates_any_query by metis
  show ?thesis
    unfolding generateReplySuggestions_try_def Let_def k t
    by (simp add: assms(3) quick_list_def split: option.split)
qed

lemma try_fails_knowledge:
  "searchKnowledge st (knowledge_answer w) query 3 = Inl error \<Longrightarrow>
   generateReplySuggestions_try w st email = Inl error"
proof -
  let ?q = "subject email @ '' '' @ body email @ '' '' @ analyzeEmailIntent (intent_answer w) email"
  assume "searchKnowledge st (knowledge_answer w) query 3 = Inl error"
  then have k: "searchKnowledge st (knowledge_answer w) ?q 3 = Inl error"
    using searchKnowledge_any_query by metis
  show ?thesis
    unfolding generateReplySuggestions_try_def Let_def k by simp
qed

lemma try_fails_templates:
  assumes "searchKnowledge st (knowledge_answer w) query 3 = Inr ks"
    and "searchReplyTemplates st (templates_answer w) query2 2 = Inl error"
  shows "generateReplySuggestions_try w st email = Inl error"
proof -
  let ?q = "subject email @ '' '' @ body email @ '' '' @ analyzeEmailIntent (intent_answer w) email"
  have k: "searchKnowledge st (knowledge_answer w) ?q 3 = Inr ks"
    using assms(1) searchKnowledge_any_query by metis
  have t: "searchReplyTemplates st (templates_answer w) ?q 2 = Inl error"
    using assms(2) searchReplyTemplates_any_query by metis
  show ?thesis
    unfolding generateReplySuggestions_try_def Let_def k t by simp
qed

lemma try_fails_ai:
  assumes "searchKnowledge st (knowledge_answer w) query 3 = Inr ks"
    and "searchReplyTemplates st (templates_answer w) query2 2 = Inr ts"
    and "generateAIContextualReply (now_ai w) (reply_answer w) email ks ts
           (analyzeEmailIntent (intent_answer w) email) = Inl error"
  shows "generateReplySuggestions_try w st email = Inl error"
proof -
  let ?q = "subject email @ '' '' @ body email @ '' '' @ analyzeEmailIntent (intent_answer w) email"
  have k: "searchKnowledge st (knowledge_answer w) ?q 3 = Inr ks"
    using assms(1) searchKnowledge_any_query by metis
  have t: "searchReplyTemplates st (templates_answer w) ?q 2 = Inr ts"
    using assms(2) searchReplyTemplates_any_query by metis
  show ?thesis
    unfolding generateReplySuggestions_try_def Let_def k t by (simp add: assms(3))
qed

lemma suggestions_nonempty: "generateReplySuggestions w st email \<noteq> []"
proof (cases "searchKnowledge st (knowledge_answer w) [] 3")
  case (Inl error)
  then show ?thesis
    by (simp add: generateReplySuggestions_def try_fails_knowledge)
next
  case k: (Inr ks)
  show ?thesis
  proof (cases "searchReplyTemplates st (templates_answer w) [] 2")
    case (Inl error)
    with k show ?thesis
      by (simp add: generateReplySuggestions_def try_fails_templates)
  next
    case t: (Inr ts)
    show ?thesis
    proof (cases "generateAIContextualReply (now_ai w) (reply_answer w) email ks ts
           (analyzeEmailIntent (intent_answer w) email)")
      case (Inl error)
      with k t show ?thesis
        by (simp add: generateReplySuggestions_def try_fails_ai)
    next
      case (Inr ai)
      with k t show ?thesis
        by (simp add: generateReplySuggestions_def try_result)
    qed
  qed
qed

lemma or_default_nonempty: "b \<noteq> [] \<Longrightarrow> or_default a b \<noteq> []"
  by (simp add: or_default_def split: option.split)

lemma ai_reply_props:
  "generateAIContextualReply now answer email ks ts intent = Inr ai \<Longrightarrow>
   confidence ai = 0.8 \<and> SuggestedReply.content ai \<noteq> [] \<and> take 3 (id' ai) = ''ai_''
   \<and> \<not> is_template_suggestion ai"
  by (auto simp: generateAIContextualReply_def is_template_suggestion_def Let_def
        or_default_nonempty split: outcome.splits list.splits)

lemma quick_props:
  "generateQuickResponse now email intent = Some q \<Longrightarrow>
   (confidence q = 0.9 \<or> confidence q = 0.8) \<and> SuggestedReply.content q \<noteq> []
   \<and> \<not> action_required (SuggestedReply.metadata q) \<and> \<not> is_template_suggestion q"
  by (auto simp: generateQuickResponse_def is_template_suggestion_def Let_def split: if_splits)

lemma template_reply_props:
  "is_template_suggestion (generateTemplateBasedReply now link email t ks)
   \<and> confidence (generateTemplateBasedReply now link email t ks) = TemplateResult.similarity t"
  by (simp add: generateTemplateBasedReply_def is_template_suggestion_def Let_def)

lemma fallback_props:
  "confidence fallbackSuggestion = 0.5 \<and> SuggestedReply.content fallbackSuggestion \<noteq> []
   \<and> \<not> is_template_suggestion fallbackSuggestion"
  by (simp add: fallbackSuggestion_def is_template_suggestion_def)

lemma quick_list_props:
  "q \<in> set (quick_list w email) \<Longrightarrow>
   (confidence q = 0.9 \<or> confidence q = 0.8) \<and> SuggestedReply.content q \<noteq> []
   \<and> \<not> is_template_suggestion q"
  using quick_props by (auto simp: quick_list_def split: option.splits)

text \<open>The shape of every run: either the fallback alone, or the three strategies in order.\<close>

lemma suggestions_shape:
  "generateReplySuggestions w st email = [fallbackSuggestion]
     \<and> (\<exists>error. generateReplySuggestions_try w st email = Inl error)
   \<or> (\<exists>ks ts ai.
        searchKnowledge st (knowledge_answer w) query 3 = Inr ks
        \<and> searchReplyTemplates st (templates_answer w) query2 2 = Inr ts
        \<and> generateAIContextualReply (now_ai w) (reply_answer w) email ks ts
             (analyzeEmailIntent (intent_answer w) email) = Inr ai
        \<and> generateReplySuggestions_try w st email = Inr (generateReplySuggestions w st email)
        \<and> generateReplySuggestions w st email =
            (if ts \<noteq> [] \<and> TemplateResult.similarity (ts ! 0) > 0.7
             then [generateTemplateBasedReply (now_template w) (MEETING_LINK w) email (ts ! 0) ks]
             else [])
            @ [ai] @ quick_list w email)"
proof (cases "searchKnowledge st (knowledge_answer w) query 3")
  case (Inl error)
  then show ?thesis
    by (simp add: generateReplySuggestions_def try_fails_knowledge)
next
  case k: (Inr ks)
  show ?thesis
  proof (cases "searchReplyTemplates st (templates_answer w) query2 2")
    case (Inl error)
    with k show ?thesis
      by (simp add: generateReplySuggestions_def try_fails_templates)
  next
    case t: (Inr ts)
    show ?thesis
    proof (cases "generateAIContextualReply (now_ai w) (reply_answer w) email ks ts
           (analyzeEmailIntent (intent_answer w) email)")
      case (Inl error)
      with k t show ?thesis
        by (simp add: generateReplySuggestions_def try_fails_ai)
    next
      case (Inr ai)
      with k t show ?thesis
        by (simp add: generateReplySuggestions_def try_result)
    qed
  qed
qed

text \<open>
  A run on a concrete input, computed from the definitions: with the store disconnected
  and a chat API that answers, the email \<open>update_email\<close> gets the template-based
  suggestion of the first built-in template, the AI suggestion and the quick response,
  in this order.
\<close>

lemmas eval_pipeline =
  generateReplySuggestions_def generateReplySuggestions_try_def analyzeEmailIntent_def
  searchKnowledge_def searchReplyTemplates_def getFallbackKnowledge_def
  getFallbackReplyTemplates_def generateTemplateBasedReply_def generateAIContextualReply_def
  generateQuickResponse_def categorizeEmail_def or_default_def trim_def is_whitespace_def
  split_first_def replace_all_def show_nat.simps digit_def show_int_def math_round_def
  toLowerCase_def toLowerCase_char_def char_of_eq_iff Let_def

lemma offline_run:
  "map (\<lambda>r. (id' r, confidence r, ReplyMetadata.category (SuggestedReply.metadata r),
              action_required (SuggestedReply.metadata r)))
     (generateReplySuggestions offline_world disconnected_store update_email)
   = [(''template_1704067200000'', 0.8, ''job_interview'', True),
      (''ai_1704067200001'', 0.8, ''meeting'', False),
      (''quick_1704067200002'', 0.9, ''acknowledgment'', False)]"
  by (simp add: offline_world_def disconnected_store_def update_email_def eval_pipeline)

text \<open>
  C1. For every email and every behaviour of the outside world,
  \<open>generateReplySuggestions\<close> returns a non-empty list. When an exception leaves the
  \<open>try\<close> block (a failing knowledge or template search, a failing chat API in the reply
  strategy; a failing intent classification is caught before) it returns exactly the
  fallback suggestion, whose id is \<open>fallback\<close>, confidence 0.5, category \<open>general\<close>, tone
  \<open>professional\<close>, \<open>action_required\<close> true, estimated response time \<open>24 hours\<close> and
  reasoning \<open>Fallback response due to processing error\<close>.
\<close>

theorem reply_suggestions_total_with_fallback:
  "generateReplySuggestions w st email \<noteq> []
   \<and> (generateReplySuggestions_try w st email = Inl error \<longrightarrow>
        generateReplySuggestions w st email = [fallbackSuggestion])
   \<and> (searchKnowledge st (knowledge_answer w) query 3 = Inl error \<longrightarrow>
        generateReplySuggestions w st email = [fallbackSuggestion])
   \<and> (searchReplyTemplates st (templates_answer w) query 2 = Inl error \<longrightarrow>
        generateReplySuggestions w st email = [fallbackSuggestion])
   \<and> (reply_answer w = Failure error \<longrightarrow>
        generateReplySuggestions w st email = [fallbackSuggestion])
   \<and> id' fallbackSuggestion = ''fallback''
   \<and> confidence fallbackSuggestion = 0.5
   \<and> ReplyMetadata.category (SuggestedReply.metadata fallbackSuggestion) = ''general''
   \<and> tone (SuggestedReply.metadata fallbackSuggestion) = professional
   \<and> action_required (SuggestedReply.metadata fallbackSuggestion) = True
   \<and> estimated_response_time (SuggestedReply.metadata fallbackSuggestion) = ''24 hours''
   \<and> reasoning (SuggestedReply.context' fallbackSuggestion)
       = ''Fallback response due to processing error''"
proof -
  have 1: "generateReplySuggestions w st email \<noteq> []"
    by (rule suggestions_nonempty)
  have 2: "generateReplySuggestions_try w st email = Inl error \<longrightarrow>
        generateReplySuggestions w st email = [fallbackSuggestion]"
    by (simp add: generateReplySuggestions_def)
  have 3: "searchKnowledge st (knowledge_answer w) query 3 = Inl error \<longrightarrow>
        generateReplySuggestions w st email = [fallbackSuggestion]"
    by (simp add: generateReplySuggestions_def try_fails_knowledge)
  have 4: "searchReplyTemplates st (templates_answer w) query 2 = Inl error \<longrightarrow>
        generateReplySuggestions w st email = [fallbackSuggestion]"
    using suggestions_shape [of w st email query query] by auto
  have 5: "reply_answer w = Failure error \<longrightarrow>
        generateReplySuggestions w st email = [fallbackSuggestion]"
    using suggestions_shape [of w st email query query]
    by (auto simp: generateAIContextualReply_def)
  from 1 2 3 4 5 show ?thesis
    by (simp add: fallbackSuggestion_def)
qed

theorem reply_suggestions_total_with_fallback_witness:
  "generateReplySuggestions_try api_outage connected_store update_email = Inl unreachable
   \<and> generateReplySuggestions api_outage connected_store update_email = [fallbackSuggestion]
   \<and> reply_answer api_outage = Failure unauthorized
   \<and> generateReplySuggestions api_outage disconnected_store update_email = [fallbackSuggestion]"
  using reply_suggestions_total_with_fallback
          [of api_outage connected_store update_email unreachable "[]"]
        reply_suggestions_total_with_fallback
          [of api_outage disconnected_store update_email unauthorized "[]"]
  by (simp add: try_fails_knowledge [of _ _ "[]"] searchKnowledge_def api_outage_def
        connected_store_def)

lemma ai_reply_succeeds:
  "answer = Success (c # cs) \<Longrightarrow>
   \<exists>ai. generateAIContextualReply now answer email ks ts intent = Inr ai"
  by (simp add: generateAIContextualReply_def Let_def)

lemma try_succeeds:
  assumes "searchKnowledge st (knowledge_answer w) query 3 = Inr ks"
    and "searchReplyTemplates st (templates_answer w) query2 2 = Inr ts"
    and "reply_answer w = Success (c # cs)"
  shows "\<exists>out. generateReplySuggestions_try w st email = Inr out"
proof -
  from ai_reply_succeeds [OF assms(3)] obtain ai where
    "generateAIContextualReply (now_ai w) (reply_answer w) email ks ts
       (analyzeEmailIntent (intent_answer w) email) = Inr ai"
    by blast
  from try_result [OF assms(1) assms(2) this] show ?thesis by blast
qed

lemma getSubstitution_plain:
  "CHR ''$'' \<notin> set replacement \<Longrightarrow> getSubstitution matched before after replacement = replacement"
  by (induction matched before after replacement rule: getSubstitution.induct) auto

lemma replace_from_nonempty:
  "s \<noteq> [] \<Longrightarrow> replacement \<noteq> [] \<Longrightarrow> CHR ''$'' \<notin> set replacement \<Longrightarrow>
   replace_from pattern replacement before s \<noteq> []"
  by (cases s) (simp_all add: getSubstitution_plain)

lemma replace_all_nonempty:
  "s \<noteq> [] \<Longrightarrow> replacement \<noteq> [] \<Longrightarrow> CHR ''$'' \<notin> set replacement \<Longrightarrow>
   replace_all pattern replacement s \<noteq> []"
  by (simp add: replace_all_def replace_from_nonempty)

lemma or_default_no_dollar:
  "(\<forall>l. a = Some l \<longrightarrow> CHR ''$'' \<notin> set l) \<Longrightarrow> CHR ''$'' \<notin> set b \<Longrightarrow>
   CHR ''$'' \<notin> set (or_default a b)"
  by (simp add: or_default_def split: option.split)

lemma split_first_subset: "set (split_first sep s) \<subseteq> set s"
  by (auto simp: split_first_def dest: set_takeWhileD)

lemma template_reply_content:
  assumes "template t \<noteq> []" and "CHR ''$'' \<notin> set (from' email)"
    and "\<forall>l. link = Some l \<longrightarrow> CHR ''$'' \<notin> set l"
  shows "SuggestedReply.content (generateTemplateBasedReply now link email t ks) \<noteq> []"
proof -
  let ?link = "or_default link ''https://cal.com/example''"
  let ?sender = "or_default (Some (split_first CHR ''@'' (from' email))) ''there''"
  have l: "?link \<noteq> []" "CHR ''$'' \<notin> set ?link"
    using assms(3) by (simp_all add: or_default_nonempty or_default_no_dollar)
  have "CHR ''$'' \<notin> set (split_first CHR ''@'' (from' email))"
    using assms(2) split_first_subset by fastforce
  then have s: "?sender \<noteq> []" "CHR ''$'' \<notin> set ?sender"
    by (simp_all add: or_default_nonempty or_default_no_dollar)
  have 1: "replace_all ''{{meeting_link}}'' ?link (template t) \<noteq> []"
    using assms(1) l by (rule replace_all_nonempty)
  have 2: "replace_all ''{{product_name}}'' ''OneBox-AI''
             (replace_all ''{{meeting_link}}'' ?link (template t)) \<noteq> []"
    using 1 by (rule replace_all_nonempty) simp_all
  have 3: "replace_all ''{{sender_name}}'' ?sender
             (replace_all ''{{product_name}}'' ''OneBox-AI''
               (replace_all ''{{meeting_link}}'' ?link (template t))) \<noteq> []"
    using 2 s by (rule replace_all_nonempty)
  then show ?thesis
    by (simp add: generateTemplateBasedReply_def Let_def)
qed

lemma top_template_bounds:
  assumes "searchReplyTemplates st answer query 2 = Inr ts" and "ts \<noteq> []"
  shows "(\<forall>m d rest. answer = Success ((m, d) # rest) \<longrightarrow> 0 \<le> d) \<longrightarrow>
           TemplateResult.similarity (ts ! 0) \<le> 1"
    and "(\<forall>m d rest. answer = Success ((m, d) # rest) \<longrightarrow> template m \<noteq> []) \<longrightarrow>
           template (ts ! 0) \<noteq> []"
proof -
  consider (offline) "ts = getFallbackReplyTemplates query 2"
    | (online) m d rest where "answer = Success ((m, d) # rest)"
        "ts ! 0 = \<lparr>scenario = scenario m, template = template m, variables = variables m,
                   category = ReplyTemplate.category m, similarity = 1 - d\<rparr>"
  proof (cases "isConnected st")
    case False
    with assms(1) have "ts = getFallbackReplyTemplates query 2"
      by (simp add: searchReplyTemplates_def)
    then show ?thesis by (rule offline)
  next
    case True
    with assms(1) obtain results where r: "answer = Success results"
      "ts = map (\<lambda>(meta, distance).
                  \<lparr>scenario = scenario meta, template = template meta,
                   variables = variables meta, category = ReplyTemplate.category meta,
                   similarity = 1 - distance\<rparr>) results"
      by (auto simp: searchReplyTemplates_def split: outcome.splits)
    with assms(2) obtain m d rest where "results = (m, d) # rest"
      by (cases results) auto
    with r show ?thesis by (auto intro: online)
  qed
  note cases = this
  show "(\<forall>m d rest. answer = Success ((m, d) # rest) \<longrightarrow> 0 \<le> d) \<longrightarrow>
           TemplateResult.similarity (ts ! 0) \<le> 1"
    by (rule cases) (auto simp: getFallbackReplyTemplates_def)
  show "(\<forall>m d rest. answer = Success ((m, d) # rest) \<longrightarrow> template m \<noteq> []) \<longrightarrow>
           template (ts ! 0) \<noteq> []"
    by (rule cases) (auto simp: getFallbackReplyTemplates_def)
qed

lemma demo_search:
  "searchReplyTemplates connected_store (templates_answer (answering_world d)) query 2
     = Inr (demo_match d)"
  by (simp add: searchReplyTemplates_def connected_store_def answering_world_def demo_match_def)

lemma demo_knowledge:
  "searchKnowledge connected_store (knowledge_answer (answering_world d)) query 3 = Inr []"
  by (simp add: searchKnowledge_def connected_store_def answering_world_def)

lemma demo_try:
  "\<exists>out. generateReplySuggestions_try (answering_world d) connected_store demo_email = Inr out"
  by (rule try_succeeds [OF demo_knowledge demo_search]) (simp add: answering_world_def)

text \<open>
  C6, as the code has it. Let \<open>ts\<close> be the result of the template search. The output
  contains a template-based suggestion exactly when \<open>ts\<close> is not empty, its first match
  has a similarity above 0.7, and the run does not end in the fallback (no exception
  leaves the \<open>try\<close> block, in particular the reply strategy does not throw). In that
  case the template-based suggestion is the first element of the output, its confidence
  is that similarity, and the AI suggestion is the second element.
\<close>

theorem template_suggestion_gate:
  assumes "searchReplyTemplates st (templates_answer w) query 2 = Inr ts"
  shows "((\<exists>r\<in>set (generateReplySuggestions w st email). is_template_suggestion r) \<longleftrightarrow>
            ts \<noteq> [] \<and> TemplateResult.similarity (ts ! 0) > 0.7
            \<and> (\<exists>out. generateReplySuggestions_try w st email = Inr out))
     \<and> (ts \<noteq> [] \<and> TemplateResult.similarity (ts ! 0) > 0.7
          \<and> (\<exists>out. generateReplySuggestions_try w st email = Inr out) \<longrightarrow>
        is_template_suggestion (generateReplySuggestions w st email ! 0)
        \<and> confidence (generateReplySuggestions w st email ! 0) = TemplateResult.similarity (ts ! 0)
        \<and> take 3 (id' (generateReplySuggestions w st email ! 1)) = ''ai_''
        \<and> \<not> is_template_suggestion (generateReplySuggestions w st email ! 1))"
proof -
  from suggestions_shape [of w st email query query]
  consider (fallback) error where
      "generateReplySuggestions w st email = [fallbackSuggestion]"
      "generateReplySuggestions_try w st email = Inl error"
    | (run) ks ai where
      "generateAIContextualReply (now_ai w) (reply_answer w) email ks ts
             (analyzeEmailIntent (intent_answer w) email) = Inr ai"
      "generateReplySuggestions_try w st email = Inr (generateReplySuggestions w st email)"
      "generateReplySuggestions w st email =
            (if ts \<noteq> [] \<and> TemplateResult.similarity (ts ! 0) > 0.7
             then [generateTemplateBasedReply (now_template w) (MEETING_LINK w) email (ts ! 0) ks]
             else [])
            @ [ai] @ quick_list w email"
    using assms by auto
  then show ?thesis
  proof cases
    case fallback
    then show ?thesis by (simp add: fallback_props)
  next
    case run
    note ai = ai_reply_props [OF run(1)]
    show ?thesis
    proof (cases "ts \<noteq> [] \<and> TemplateResult.similarity (ts ! 0) > 0.7")
      case True
      then show ?thesis
        unfolding run(2) run(3) using ai by (simp add: template_reply_props)
    next
      case False
      then show ?thesis
        unfolding run(2) run(3) using ai quick_list_props [of _ w email] by auto
    qed
  qed
qed

text \<open>
  With a top match of similarity 0.71 and a chat API that fails for the reply, the output
  is the fallback suggestion alone.
\<close>

theorem template_suggestion_gate_counterexample:
  "searchReplyTemplates connected_store (templates_answer synthesis_outage) [] 2
     = Inr (demo_match 0.29)
   \<and> TemplateResult.similarity (demo_match 0.29 ! 0) = 0.71
   \<and> generateReplySuggestions synthesis_outage connected_store demo_email = [fallbackSuggestion]
   \<and> filter is_template_suggestion [fallbackSuggestion] = []"
proof -
  have t: "searchReplyTemplates connected_store (templates_answer synthesis_outage) [] 2
     = Inr (demo_match 0.29)"
    by (simp add: searchReplyTemplates_def connected_store_def synthesis_outage_def
          answering_world_def demo_match_def)
  have k: "searchKnowledge connected_store (knowledge_answer synthesis_outage) [] 3 = Inr []"
    by (simp add: searchKnowledge_def connected_store_def synthesis_outage_def
          answering_world_def)
  have a: "generateAIContextualReply (now_ai synthesis_outage) (reply_answer synthesis_outage)
             demo_email [] (demo_match 0.29)
             (analyzeEmailIntent (intent_answer synthesis_outage) demo_email) = Inl unauthorized"
    by (simp add: generateAIContextualReply_def synthesis_outage_def)
  have "generateReplySuggestions_try synthesis_outage connected_store demo_email = Inl unauthorized"
    by (rule try_fails_ai [OF k t a])
  then have "generateReplySuggestions synthesis_outage connected_store demo_email
               = [fallbackSuggestion]"
    by (simp add: generateReplySuggestions_def)
  with t show ?thesis
    by (simp add: demo_match_def fallback_props)
qed

text \<open>
  With a top match of similarity 0.71 the template suggestion comes first and the AI
  suggestion second; with similarity 0.69 no suggestion is template-based.
\<close>

theorem template_suggestion_gate_witness:
  "is_template_suggestion (generateReplySuggestions (answering_world 0.29) connected_store demo_email ! 0)
   \<and> confidence (generateReplySuggestions (answering_world 0.29) connected_store demo_email ! 0) = 0.71
   \<and> take 3 (id' (generateReplySuggestions (answering_world 0.29) connected_store demo_email ! 1)) = ''ai_''
   \<and> filter is_template_suggestion
        (generateReplySuggestions (answering_world 0.31) connected_store demo_email) = []"
  using template_suggestion_gate [OF demo_search [of "0.29" "[]"], of demo_email]
        template_suggestion_gate [OF demo_search [of "0.31" "[]"], of demo_email]
        demo_try [of "0.29"]
  by (simp add: demo_match_def filter_empty_conv)

text \<open>
  C2, as the code has it. For every suggestion \<open>r\<close> of the output: if the cosine distance
  of the top template match is not negative (its similarity is at most 1), then
  \<open>0 \<le> confidence r \<le> 1\<close>; if \<open>r\<close> is not template-based (the AI suggestion, the quick
  response, the fallback), its content is not empty; and the content of the
  template-based suggestion is not empty provided the text of the matched template is not
  empty and neither the sender address nor \<open>MEETING_LINK\<close> contains a dollar sign (which
  \<open>replace\<close> reads as a replacement pattern).
\<close>

theorem suggestions_confidence_and_content:
  assumes "r \<in> set (generateReplySuggestions w st email)"
  shows "((\<forall>m d rest. templates_answer w = Success ((m, d) # rest) \<longrightarrow> 0 \<le> d) \<longrightarrow>
            0 \<le> confidence r \<and> confidence r \<le> 1)
     \<and> (\<not> is_template_suggestion r \<longrightarrow> SuggestedReply.content r \<noteq> [])
     \<and> ((\<forall>m d rest. templates_answer w = Success ((m, d) # rest) \<longrightarrow> template m \<noteq> [])
          \<and> CHR ''$'' \<notin> set (from' email)
          \<and> (\<forall>l. MEETING_LINK w = Some l \<longrightarrow> CHR ''$'' \<notin> set l) \<longrightarrow>
        SuggestedReply.content r \<noteq> [])"
proof -
  from suggestions_shape [of w st email "[]" "[]"]
  consider (fallback) "generateReplySuggestions w st email = [fallbackSuggestion]"
    | (run) ks ts ai where
      "searchReplyTemplates st (templates_answer w) [] 2 = Inr ts"
      "generateAIContextualReply (now_ai w) (reply_answer w) email ks ts
             (analyzeEmailIntent (intent_answer w) email) = Inr ai"
      "generateReplySuggestions w st email =
            (if ts \<noteq> [] \<and> TemplateResult.similarity (ts ! 0) > 0.7
             then [generateTemplateBasedReply (now_template w) (MEETING_LINK w) email (ts ! 0) ks]
             else [])
            @ [ai] @ quick_list w email"
    by auto
  then show ?thesis
  proof cases
    case fallback
    with assms show ?thesis by (simp add: fallback_props)
  next
    case run
    from assms run(3)
    consider (t) "ts \<noteq> []" "TemplateResult.similarity (ts ! 0) > 0.7"
        "r = generateTemplateBasedReply (now_template w) (MEETING_LINK w) email (ts ! 0) ks"
      | (a) "r = ai"
      | (q) "r \<in> set (quick_list w email)"
      by (auto split: if_splits)
    then show ?thesis
    proof cases
      case t
      from top_template_bounds [OF run(1) t(1)] t(2) show ?thesis
        unfolding t(3) by (auto simp: template_reply_props template_reply_content)
    next
      case a
      with ai_reply_props [OF run(2)] show ?thesis by simp
    next
      case q
      with quick_list_props [OF q] show ?thesis by auto
    qed
  qed
qed

text \<open>
  A stored template with an empty text, matched at similarity 0.9, gives a template-based
  suggestion with empty content.
\<close>

theorem suggestions_confidence_and_content_counterexample:
  "is_template_suggestion
     (generateReplySuggestions empty_template_world connected_store demo_email ! 0)
   \<and> confidence (generateReplySuggestions empty_template_world connected_store demo_email ! 0) = 0.9
   \<and> SuggestedReply.content
        (generateReplySuggestions empty_template_world connected_store demo_email ! 0) = []"
proof -
  let ?t = "\<lparr>scenario = ''Placeholder'', template = '''', variables = [],
             category = ''general'', similarity = 1 - 0.1\<rparr>"
  have t: "searchReplyTemplates connected_store (templates_answer empty_template_world) [] 2
     = Inr [?t]"
    by (simp add: searchReplyTemplates_def connected_store_def empty_template_world_def)
  have k: "searchKnowledge connected_store (knowledge_answer empty_template_world) [] 3 = Inr []"
    by (simp add: searchKnowledge_def connected_store_def empty_template_world_def)
  have "\<exists>ai. generateAIContextualReply (now_ai empty_template_world)
      (reply_answer empty_template_world) demo_email [] [?t]
      (analyzeEmailIntent (intent_answer empty_template_world) demo_email) = Inr ai"
    by (rule ai_reply_succeeds) (simp add: empty_template_world_def)
  then obtain ai where a: "generateAIContextualReply (now_ai empty_template_world)
      (reply_answer empty_template_world) demo_email [] [?t]
      (analyzeEmailIntent (intent_answer empty_template_world) demo_email) = Inr ai"
    by blast
  have "generateReplySuggestions empty_template_world connected_store demo_email ! 0
      = generateTemplateBasedReply (now_template empty_template_world)
          (MEETING_LINK empty_template_world) demo_email ?t []"
    by (simp add: generateReplySuggestions_def try_result [OF k t a])
  then show ?thesis
    by (simp add: generateTemplateBasedReply_def is_template_suggestion_def replace_all_def)
qed

theorem suggestions_confidence_and_content_witness:
  "0 \<le> confidence (generateReplySuggestions (answering_world 0.29) connected_store demo_email ! 0)
   \<and> confidence (generateReplySuggestions (answering_world 0.29) connected_store demo_email ! 0) \<le> 1
   \<and> SuggestedReply.content
        (generateReplySuggestions (answering_world 0.29) connected_store demo_email ! 0) \<noteq> []"
proof -
  have "generateReplySuggestions (answering_world 0.29) connected_store demo_email \<noteq> []"
    by (rule suggestions_nonempty)
  then have "generateReplySuggestions (answering_world 0.29) connected_store demo_email ! 0
         \<in> set (generateReplySuggestions (answering_world 0.29) connected_store demo_email)"
    by simp
  from suggestions_confidence_and_content [OF this] show ?thesis
    by (simp add: answering_world_def outreachTemplates_def demo_email_def)
qed

section \<open>Properties of seeding\<close>

lemma addKnowledgeItems_connected:
  "isConnected st \<Longrightarrow> \<forall>j<length items. answers (k + j) = Success () \<Longrightarrow>
   \<exists>st'. addKnowledgeItems uuids answers k items st = (Inr (), st')
     \<and> isConnected st'
     \<and> length (knowledgeCollection st') = length (knowledgeCollection st) + length items
     \<and> templatesCollection st' = templatesCollection st"
proof (induction items arbitrary: k st)
  case Nil
  then show ?case by simp
next
  case (Cons item items)
  let ?st1 = "st\<lparr>knowledgeCollection := knowledgeCollection st
                @ [(uuids k, KnowledgeItem.content item, KnowledgeItem.metadata item)]\<rparr>"
  from Cons.prems(2) have k: "answers k = Success ()"
    by (metis add.right_neutral length_greater_0_conv list.distinct(1))
  have rest: "\<forall>j<length items. answers (k + 1 + j) = Success ()"
    using Cons.prems(2) by (metis add.assoc length_Cons not_less_eq plus_1_eq_Suc)
  have step: "addKnowledgeItem (uuids k) (answers k) item st = (Inr (uuids k), ?st1)"
    using Cons.prems(1) k by (simp add: addKnowledgeItem_def)
  have "isConnected ?st1" using Cons.prems(1) by simp
  from Cons.IH [OF this rest] obtain st' where
    "addKnowledgeItems uuids answers (k + 1) items ?st1 = (Inr (), st')"
    "isConnected st'"
    "length (knowledgeCollection st') = length (knowledgeCollection ?st1) + length items"
    "templatesCollection st' = templatesCollection ?st1"
    by blast
  with step show ?case by simp
qed

lemma addReplyTemplates_connected:
  "isConnected st \<Longrightarrow> \<forall>j<length ts. answers (k + j) = Success () \<Longrightarrow>
   \<exists>st'. addReplyTemplates uuids answers k ts st = (Inr (), st')
     \<and> isConnected st'
     \<and> length (templatesCollection st') = length (templatesCollection st) + length ts
     \<and> knowledgeCollection st' = knowledgeCollection st"
proof (induction ts arbitrary: k st)
  case Nil
  then show ?case by simp
next
  case (Cons t ts)
  let ?st1 = "st\<lparr>templatesCollection := templatesCollection st
                @ [(uuids k, scenario t @ '' '' @ template t,
                    \<lparr>scenario = scenario t, template = template t,
                     variables = variables t, category = ReplyTemplate.category t\<rparr>)]\<rparr>"
  from Cons.prems(2) have k: "answers k = Success ()"
    by (metis add.right_neutral length_greater_0_conv list.distinct(1))
  have rest: "\<forall>j<length ts. answers (k + 1 + j) = Success ()"
    using Cons.prems(2) by (metis add.assoc length_Cons not_less_eq plus_1_eq_Suc)
  have step: "addReplyTemplate (uuids k) (answers k) t st = (Inr (uuids k), ?st1)"
    using Cons.prems(1) k by (simp add: addReplyTemplate_def Let_def)
  have "isConnected ?st1" using Cons.prems(1) by simp
  from Cons.IH [OF this rest] obtain st' where
    "addReplyTemplates uuids answers (k + 1) ts ?st1 = (Inr (), st')"
    "isConnected st'"
    "length (templatesCollection st') = length (templatesCollection ?st1) + length ts"
    "knowledgeCollection st' = knowledgeCollection ?st1"
    by blast
  with step show ?case by simp
qed

lemma seed_connected:
  assumes "isConnected st" and "\<forall>k<7. answers k = Success ()"
  shows "\<exists>st'. seedKnowledgeBase uuids answers st = (Inr (), st')
     \<and> isConnected st'
     \<and> length (knowledgeCollection st') = length (knowledgeCollection st) + 3
     \<and> length (templatesCollection st') = length (templatesCollection st) + 4"
proof -
  have "\<forall>j<length productInfo. answers (0 + j) = Success ()"
    using assms(2) by (simp add: productInfo_def)
  from addKnowledgeItems_connected [OF assms(1) this] obtain st1 where 1:
    "addKnowledgeItems uuids answers 0 productInfo st = (Inr (), st1)"
    "isConnected st1"
    "length (knowledgeCollection st1) = length (knowledgeCollection st) + length productInfo"
    "templatesCollection st1 = templatesCollection st"
    by blast
  have "\<forall>j<length outreachTemplates. answers (length productInfo + j) = Success ()"
    using assms(2) by (simp add: productInfo_def outreachTemplates_def)
  from addReplyTemplates_connected [OF 1(2) this] obtain st2 where 2:
    "addReplyTemplates uuids answers (length productInfo) outreachTemplates st1 = (Inr (), st2)"
    "isConnected st2"
    "length (templatesCollection st2) = length (templatesCollection st1) + length outreachTemplates"
    "knowledgeCollection st2 = knowledgeCollection st1"
    by blast
  have "length productInfo = 3" "length outreachTemplates = 4"
    by (simp_all add: productInfo_def outreachTemplates_def)
  with 1 2 assms(1) show ?thesis
    by (simp add: seedKnowledgeBase_def)
qed

lemma stats_connected:
  "isConnected st \<Longrightarrow>
   stats st = Inr \<lparr>knowledgeItems = length (knowledgeCollection st),
                   replyTemplates = length (templatesCollection st), status = ''active''\<rparr>"
  by (simp add: stats_def getStats_def)

lemma initialize_seeded:
  assumes "isConnected st" and "knowledgeCollection st \<noteq> []"
    and "collections_answer w = Success ()" and "count_answer1 w = Success ()"
    and "count_answer2 w = Success ()"
  shows "initialize w st = st"
  using assms by (simp add: initialize_def getStats_def Let_def)

lemma initialize_empty:
  assumes "knowledgeCollection st = []"
    and "collections_answer w = Success ()" and "count_answer1 w = Success ()"
    and "count_answer2 w = Success ()" and "\<forall>k<7. seed_answers w k = Success ()"
  shows "isConnected (initialize w st)
     \<and> length (knowledgeCollection (initialize w st)) = 3
     \<and> length (templatesCollection (initialize w st)) = length (templatesCollection st) + 4
     \<and> initialize w (initialize w st) = initialize w st"
proof -
  let ?st1 = "st\<lparr>isConnected := True\<rparr>"
  have c: "isConnected ?st1" by simp
  from seed_connected [OF c assms(5), of "seed_uuids w"] obtain st' where s:
    "seedKnowledgeBase (seed_uuids w) (seed_answers w) ?st1 = (Inr (), st')" "isConnected st'"
    "length (knowledgeCollection st') = length (knowledgeCollection ?st1) + 3"
    "length (templatesCollection st') = length (templatesCollection ?st1) + 4"
    by blast
  have i: "initialize w st = st'"
    using assms(1-4) s(1) by (simp add: initialize_def getStats_def Let_def)
  from s(3) assms(1) have "knowledgeCollection st' \<noteq> []" by auto
  from initialize_seeded [OF s(2) this assms(2-4)] have "initialize w st' = st'" .
  with i s assms(1) show ?thesis by simp
qed

text \<open>
  C9, as the code has it. On a connected store whose server accepts the seven adds, every
  call of \<open>seedKnowledgeBase\<close> adds three knowledge items and four templates, so a second
  call raises \<open>stats().knowledgeItems\<close> by three again. The only guard is in \<open>initialize\<close>,
  which seeds when the count is zero: run on a connected store that holds knowledge items
  it changes nothing, and run on a store without knowledge items it leaves three of them,
  after which a second run changes nothing. On a disconnected store \<open>seedKnowledgeBase\<close>
  does nothing.
\<close>

theorem seeding_adds_entries:
  assumes "isConnected st" and "\<forall>k<7. answers k = Success ()"
  shows "(\<exists>st'. seedKnowledgeBase uuids answers st = (Inr (), st')
            \<and> isConnected st'
            \<and> stats st' = Inr \<lparr>knowledgeItems = length (knowledgeCollection st) + 3,
                                replyTemplates = length (templatesCollection st) + 4,
                                status = ''active''\<rparr>)
     \<and> (collections_answer w = Success () \<and> count_answer1 w = Success ()
          \<and> count_answer2 w = Success () \<and> knowledgeCollection st \<noteq> [] \<longrightarrow>
        initialize w st = st)
     \<and> (collections_answer w = Success () \<and> count_answer1 w = Success ()
          \<and> count_answer2 w = Success () \<and> (\<forall>k<7. seed_answers w k = Success ())
          \<and> knowledgeCollection st0 = [] \<longrightarrow>
        isConnected (initialize w st0)
        \<and> length (knowledgeCollection (initialize w st0)) = 3
        \<and> initialize w (initialize w st0) = initialize w st0)
     \<and> (\<not> isConnected st2 \<longrightarrow> seedKnowledgeBase uuids answers st2 = (Inr (), st2))"
proof -
  from seed_connected [OF assms] obtain st' where s:
    "seedKnowledgeBase uuids answers st = (Inr (), st')" "isConnected st'"
    "length (knowledgeCollection st') = length (knowledgeCollection st) + 3"
    "length (templatesCollection st') = length (templatesCollection st) + 4"
    by blast
  then have 1: "\<exists>st'. seedKnowledgeBase uuids answers st = (Inr (), st')
            \<and> isConnected st'
            \<and> stats st' = Inr \<lparr>knowledgeItems = length (knowledgeCollection st) + 3,
                                replyTemplates = length (templatesCollection st) + 4,
                                status = ''active''\<rparr>"
    by (simp add: stats_connected)
  have 2: "collections_answer w = Success () \<and> count_answer1 w = Success ()
          \<and> count_answer2 w = Success () \<and> knowledgeCollection st \<noteq> [] \<longrightarrow>
        initialize w st = st"
    using assms(1) by (simp add: initialize_seeded)
  have 3: "collections_answer w = Success () \<and> count_answer1 w = Success ()
          \<and> count_answer2 w = Success () \<and> (\<forall>k<7. seed_answers w k = Success ())
          \<and> knowledgeCollection st0 = [] \<longrightarrow>
        isConnected (initialize w st0)
        \<and> length (knowledgeCollection (initialize w st0)) = 3
        \<and> initialize w (initialize w st0) = initialize w st0"
    using initialize_empty [of st0 w] by blast
  have 4: "\<not> isConnected st2 \<longrightarrow> seedKnowledgeBase uuids answers st2 = (Inr (), st2)"
    by (simp add: seedKnowledgeBase_def)
  from 1 2 3 4 show ?thesis by blast
qed

text \<open>Seeding the empty connected store twice: three items, then six.\<close>

theorem seeding_adds_entries_counterexample:
  "stats (snd (seedKnowledgeBase first_uuids chroma_ok connected_store))
     = Inr \<lparr>knowledgeItems = 3, replyTemplates = 4, status = ''active''\<rparr>
   \<and> stats (snd (seedKnowledgeBase second_uuids chroma_ok
               (snd (seedKnowledgeBase first_uuids chroma_ok connected_store))))
     = Inr \<lparr>knowledgeItems = 6, replyTemplates = 8, status = ''active''\<rparr>"
proof -
  have c: "isConnected connected_store" by (simp add: connected_store_def)
  have ok: "\<forall>k<7. chroma_ok k = Success ()" by (simp add: chroma_ok_def)
  from seed_connected [OF c ok, of first_uuids] obtain st1 where 1:
    "seedKnowledgeBase first_uuids chroma_ok connected_store = (Inr (), st1)" "isConnected st1"
    "length (knowledgeCollection st1) = length (knowledgeCollection connected_store) + 3"
    "length (templatesCollection st1) = length (templatesCollection connected_store) + 4"
    by blast
  from seed_connected [OF 1(2) ok, of second_uuids] obtain st2 where 2:
    "seedKnowledgeBase second_uuids chroma_ok st1 = (Inr (), st2)" "isConnected st2"
    "length (knowledgeCollection st2) = length (knowledgeCollection st1) + 3"
    "length (templatesCollection st2) = length (templatesCollection st1) + 4"
    by blast
  from 1 2 show ?thesis
    by (simp add: stats_connected connected_store_def)
qed

theorem seeding_adds_entries_witness:
  "isConnected connected_store
   \<and> stats (snd (seedKnowledgeBase first_uuids chroma_ok connected_store))
       = Inr \<lparr>knowledgeItems = 3, replyTemplates = 4, status = ''active''\<rparr>
   \<and> length (knowledgeCollection (initialize reachable_world disconnected_store)) = 3
   \<and> initialize reachable_world (initialize reachable_world disconnected_store)
       = initialize reachable_world disconnected_store
   \<and> seedKnowledgeBase first_uuids chroma_ok disconnected_store = (Inr (), disconnected_store)"
proof -
  have c: "isConnected connected_store" by (simp add: connected_store_def)
  have ok: "\<forall>k<7. chroma_ok k = Success ()" by (simp add: chroma_ok_def)
  note run = seeding_adds_entries
         [OF c ok, of first_uuids reachable_world disconnected_store disconnected_store]
  from run obtain st' where 1:
    "seedKnowledgeBase first_uuids chroma_ok connected_store = (Inr (), st')"
    "stats st' = Inr \<lparr>knowledgeItems = length (knowledgeCollection connected_store) + 3,
                      replyTemplates = length (templatesCollection connected_store) + 4,
                      status = ''active''\<rparr>"
    by blast
  have "collections_answer reachable_world = Success () \<and> count_answer1 reachable_world = Success ()
          \<and> count_answer2 reachable_world = Success ()
          \<and> (\<forall>k<7. seed_answers reachable_world k = Success ())
          \<and> knowledgeCollection disconnected_store = []"
    by (simp add: reachable_world_def disconnected_store_def chroma_ok_def)
  with run have 2:
    "length (knowledgeCollection (initialize reachable_world disconnected_store)) = 3"
    "initialize reachable_world (initialize reachable_world disconnected_store)
       = initialize reachable_world disconnected_store"
    by blast+
  have "\<not> isConnected disconnected_store" by (simp add: disconnected_store_def)
  with run have 3:
    "seedKnowledgeBase first_uuids chroma_ok disconnected_store = (Inr (), disconnected_store)"
    by blast
  from c 1 2 3 show ?thesis
    by (simp add: connected_store_def)
qed

end
